theory Spec2Isabelle
  imports Complex_Main "HOL-Library.Sublist"
begin

section \<open>Texts\<close>

text \<open>
  A Python \<^verbatim>\<open>str\<close> is modelled as a \<^typ>\<open>string\<close>: a list of 8-bit characters, read as
  the code points U+0000 to U+00FF. \<^verbatim>\<open>needle in hay\<close> on two texts is \<^const>\<open>sublist\<close>,
  \<^verbatim>\<open>s.startswith(p)\<close> is \<^const>\<open>prefix\<close> and \<^verbatim>\<open>s.endswith(p)\<close> is \<^const>\<open>suffix\<close>.
  The character classes below are the ones Python's \<^verbatim>\<open>str\<close> methods and \<^verbatim>\<open>re\<close>
  module use on these code points.
\<close>

definition code_point :: "char \<Rightarrow> nat" where
  "code_point c = of_char c"

definition lower_char :: "char \<Rightarrow> char" where
  "lower_char c =
     (let n = code_point c
      in if (65 \<le> n \<and> n \<le> 90) \<or> (192 \<le> n \<and> n \<le> 222 \<and> n \<noteq> 215)
         then char_of (n + 32) else c)"

definition lower :: "string \<Rightarrow> string" where
  "lower s = map lower_char s"

text \<open>\<^verbatim>\<open>str.isspace\<close>, which is also the class \<^verbatim>\<open>\s\<close>.\<close>

definition is_space :: "char \<Rightarrow> bool" where
  "is_space c =
     (let n = code_point c
      in (9 \<le> n \<and> n \<le> 13) \<or> (28 \<le> n \<and> n \<le> 32) \<or> n = 133 \<or> n = 160)"

text \<open>The class \<^verbatim>\<open>\d\<close>: the decimal digits.\<close>

definition is_digit :: "char \<Rightarrow> bool" where
  "is_digit c = (let n = code_point c in 48 \<le> n \<and> n \<le> 57)"

text \<open>The class \<^verbatim>\<open>\w\<close>: letters, numeric characters and the underscore.\<close>

definition is_word :: "char \<Rightarrow> bool" where
  "is_word c =
     (let n = code_point c
      in (48 \<le> n \<and> n \<le> 57) \<or> (65 \<le> n \<and> n \<le> 90) \<or> n = 95 \<or> (97 \<le> n \<and> n \<le> 122)
         \<or> n = 170 \<or> n = 178 \<or> n = 179 \<or> n = 181 \<or> n = 185 \<or> n = 186
         \<or> (188 \<le> n \<and> n \<le> 190) \<or> (192 \<le> n \<and> n \<le> 214) \<or> (216 \<le> n \<and> n \<le> 246)
         \<or> (248 \<le> n \<and> n \<le> 255))"

text \<open>The class \<^verbatim>\<open>[\w\s\-]\<close> of the two \<^verbatim>\<open>Member ...\<close> patterns.\<close>

definition is_name_char :: "char \<Rightarrow> bool" where
  "is_name_char c = (is_word c \<or> is_space c \<or> c = CHR ''-'')"

text \<open>\<^verbatim>\<open>s.strip()\<close> and \<^verbatim>\<open>s.strip('/')\<close>.\<close>

definition strip_with :: "(char \<Rightarrow> bool) \<Rightarrow> string \<Rightarrow> string" where
  "strip_with p s = rev (dropWhile p (rev (dropWhile p s)))"

definition strip :: "string \<Rightarrow> string" where
  "strip s = strip_with is_space s"

text \<open>
  \<^verbatim>\<open>s.replace(old, new)\<close> for a non-empty \<^verbatim>\<open>old\<close>: the occurrences are replaced from
  left to right without overlap. The counter holds how many characters of a replaced
  occurrence are still to be skipped.
\<close>

fun replace_from :: "string \<Rightarrow> string \<Rightarrow> nat \<Rightarrow> string \<Rightarrow> string" where
  "replace_from old new k [] = []"
| "replace_from old new (Suc k) (c # cs) = replace_from old new k cs"
| "replace_from old new 0 (c # cs) =
     (if prefix old (c # cs) then new @ replace_from old new (length old - 1) cs
      else c # replace_from old new 0 cs)"

definition replace :: "string \<Rightarrow> string \<Rightarrow> string \<Rightarrow> string" where
  "replace s old new = replace_from old new 0 s"

text \<open>\<^verbatim>\<open>s.split(sep)\<close> for a one-character separator: never an empty list.\<close>

fun split :: "char \<Rightarrow> string \<Rightarrow> string list" where
  "split sep [] = [[]]"
| "split sep (c # cs) =
     (if c = sep then [] # split sep cs
      else (case split sep cs of
              [] \<Rightarrow> [[c]]
            | part # parts \<Rightarrow> (c # part) # parts))"

text \<open>
  The value of a text of decimal digits, and \<^verbatim>\<open>str(n)\<close> on an integer that is not
  negative. Python's integers are unbounded: \<^typ>\<open>int\<close>.
\<close>

definition digit_value :: "char \<Rightarrow> int" where
  "digit_value c = int (code_point c) - 48"

definition int_of_digits :: "string \<Rightarrow> int" where
  "int_of_digits s = foldl (\<lambda>acc c. 10 * acc + digit_value c) 0 s"

definition digit_char :: "int \<Rightarrow> char" where
  "digit_char d = char_of (48 + d)"

function str_of_int :: "int \<Rightarrow> string" where
  "str_of_int n = (if n < 10 then [digit_char n] else str_of_int (n div 10) @ [digit_char (n mod 10)])"
  by pat_completeness auto
termination
  by (relation "measure nat") auto

declare str_of_int.simps [simp del]

text \<open>\<^verbatim>\<open>re.search(r'\d+', s)\<close>: the first maximal run of digits, if there is one.\<close>

definition search_digits :: "string \<Rightarrow> string option" where
  "search_digits s =
     (let rest = dropWhile (\<lambda>c. \<not> is_digit c) s
      in if rest = [] then None else Some (takeWhile is_digit rest))"

text \<open>
  \<^verbatim>\<open>re.search(r'Member of ([\w\s\-]+)', s)\<close>: group 1 of the leftmost match. The group
  is greedy and nothing follows it, so it is the whole run of class characters.
\<close>

fun search_member_of :: "string \<Rightarrow> string option" where
  "search_member_of [] = None"
| "search_member_of (c # cs) =
     (let run = takeWhile is_name_char (drop 10 (c # cs))
      in if prefix ''Member of '' (c # cs) \<and> run \<noteq> [] then Some run
         else search_member_of cs)"

text \<open>
  \<^verbatim>\<open>re.search(r'Member for ([\w\s\-]+) Constituency', s)\<close>: group 1 of the leftmost
  match. At a start position the greedy group first takes the whole run of class
  characters and then gives characters back until \<^verbatim>\<open>" Constituency"\<close> follows, so the
  group ends at the last place of the run where that literal starts; the literal's own
  characters are class characters, so it lies inside the run.
\<close>

definition constituency_at :: "string \<Rightarrow> string option" where
  "constituency_at rest =
     (let run = takeWhile is_name_char rest
      in case filter (\<lambda>k. prefix '' Constituency'' (drop k run)) (rev [1 ..< length run]) of
           [] \<Rightarrow> None
         | k # ks \<Rightarrow> Some (take k run))"

fun search_member_for :: "string \<Rightarrow> string option" where
  "search_member_for [] = None"
| "search_member_for (c # cs) =
     (if prefix ''Member for '' (c # cs)
      then (case constituency_at (drop 11 (c # cs)) of
              Some g \<Rightarrow> Some g
            | None \<Rightarrow> search_member_for cs)
      else search_member_for cs)"

text \<open>\<^verbatim>\<open>re.match(r'\d{4}-\d{2}-\d{2}', s)\<close>: the pattern is anchored at the start only.\<close>

fun match_iso_date :: "string \<Rightarrow> bool" where
  "match_iso_date (y1 # y2 # y3 # y4 # h1 # m1 # m2 # h2 # d1 # d2 # rest) =
     (is_digit y1 \<and> is_digit y2 \<and> is_digit y3 \<and> is_digit y4 \<and> h1 = CHR ''-''
      \<and> is_digit m1 \<and> is_digit m2 \<and> h2 = CHR ''-'' \<and> is_digit d1 \<and> is_digit d2)"
| "match_iso_date s = False"

text \<open>\<^verbatim>\<open>re.sub(r'[^\w\-]', '', s)\<close>.\<close>

definition sub_non_word :: "string \<Rightarrow> string" where
  "sub_non_word s = filter (\<lambda>c. is_word c \<or> c = CHR ''-'') s"

section \<open>Promise classifier\<close>

text \<open>
  \<^verbatim>\<open>categorize_promise\<close>: the dictionary literal \<^verbatim>\<open>categories_keywords\<close> is iterated in
  insertion order, so it is an association list here.
\<close>

definition categories_keywords :: "(string \<times> string list) list" where
  "categories_keywords =
     [(''Education'', [''education'', ''school'', ''university'', ''college'', ''student'', ''learning'']),
      (''Healthcare'', [''health'', ''hospital'', ''medical'', ''clinic'', ''doctor'', ''disease'', ''treatment'']),
      (''Infrastructure'', [''road'', ''bridge'', ''building'', ''construction'', ''infrastructure'']),
      (''Water'', [''water'', ''irrigation'', ''dam'', ''borehole'', ''pipeline'']),
      (''Agriculture'', [''farm'', ''agriculture'', ''crop'', ''livestock'', ''cattle'', ''dairy'']),
      (''Economy'', [''economy'', ''business'', ''enterprise'', ''job'', ''employment'', ''income'']),
      (''Security'', [''security'', ''police'', ''crime'', ''safety''])]"

text \<open>The inner loop: does some keyword of the list occur in the lowered text?\<close>

fun keyword_scan :: "string list \<Rightarrow> string \<Rightarrow> bool" where
  "keyword_scan [] promise_lower = False"
| "keyword_scan (keyword # keywords) promise_lower =
     (if sublist keyword promise_lower then True else keyword_scan keywords promise_lower)"

text \<open>The outer loop: the first category with a hit is returned, \<^verbatim>\<open>"Other"\<close> after the loop.\<close>

fun category_scan :: "(string \<times> string list) list \<Rightarrow> string \<Rightarrow> string" where
  "category_scan [] promise_lower = ''Other''"
| "category_scan ((category, keywords) # rest) promise_lower =
     (if keyword_scan keywords promise_lower then category
      else category_scan rest promise_lower)"

definition categorize_promise :: "string \<Rightarrow> string" where
  "categorize_promise promise_text = category_scan categories_keywords (lower promise_text)"

text \<open>
  The classifier as the specification words it: the first category, in declaration order,
  one of whose keywords is a substring of the lowered text; \<^verbatim>\<open>Other\<close> when there is none.
\<close>

definition first_match_category :: "string \<Rightarrow> string" where
  "first_match_category promise_text =
     (case find (\<lambda>(category, keywords). \<exists>k \<in> set keywords. sublist k (lower promise_text))
             categories_keywords of
        None \<Rightarrow> ''Other''
      | Some (category, keywords) \<Rightarrow> category)"

section \<open>Data model\<close>

text \<open>
  The dictionaries of the scraper have fixed key sets, so each is a record; a key that
  may be absent is a field of option type, \<^const>\<open>None\<close> when the key is absent. The keys
  \<^verbatim>\<open>constituency\<close>, \<^verbatim>\<open>county\<close> and \<^verbatim>\<open>image_url\<close> are always present and may hold
  Python's \<^verbatim>\<open>None\<close>, which is \<^const>\<open>None\<close> as well.
\<close>

record election_data =
  electedDate :: "string option"
  totalVotes :: "int option"

record social_media =
  twitter :: "string option"
  facebook :: "string option"

record contact_info =
  email :: "string option"
  phone :: "string list option"
  office :: "string option"
  socialMedia :: "social_media option"

record position_info =
  title :: string
  organization :: "string option"
  date :: "string option"

record promise =
  promise_id :: string
  description :: string
  promise_category :: string
  madeDate :: "string option"
  dueDate :: "string option"
  status :: string

record attendance_record =
  period :: string
  present :: "int option"
  absent :: "int option"
  total :: "int option"

text \<open>
  A Python \<^verbatim>\<open>float\<close> that is not a NaN: a finite double, given by its exact rational
  value, or an infinity.
\<close>

datatype pyfloat = Finite rat | Infinity

record politician =
  name :: string
  position :: string
  constituency :: "string option"
  county :: "string option"
  profile_url :: string
  image_url :: "string option"
  category :: string
  politician_id :: "string option"
  party :: "string option"
  election :: "election_data option"
  contact :: "contact_info option"
  education :: "string list option"
  positions :: "position_info list option"
  promises :: "promise list option"
  attendance :: "attendance_record list option"
  committees :: "string list option"
  approvalRating :: "pyfloat option"
  keyAchievements :: "string list option"
  subcategory :: "string option"

text \<open>The exceptions the modelled code can raise.\<close>

datatype exn = TypeError | KeyError | AttributeError | ValueError | OverflowError
  | ZeroDivisionError | OSError

text \<open>
  \<^verbatim>\<open>int(s)\<close> on a text of decimal digits: CPython refuses a text of more digits than
  \<^verbatim>\<open>sys.get_int_max_str_digits()\<close>, 4300 unless changed, with \<^verbatim>\<open>ValueError\<close>. The same
  limit holds for \<^verbatim>\<open>str(n)\<close> and \<^verbatim>\<open>repr(n)\<close> of an integer.
\<close>

definition int_max_str_digits :: nat where
  "int_max_str_digits = 4300"

definition py_int :: "string \<Rightarrow> exn + int" where
  "py_int s = (if int_max_str_digits < length s then Inl ValueError else Inr (int_of_digits s))"

definition repr_raises :: "int \<Rightarrow> bool" where
  "repr_raises n = (int_max_str_digits < length (str_of_int \<bar>n\<bar>))"

section \<open>Documents\<close>

text \<open>
  A fetched page is the text of the response. The scraper reads it only through CSS
  selectors, so a non-empty text is modelled by what each selector of the code finds in
  it: an element with the text and the attributes the code reads, and below it the
  results of the selectors the code applies to that element. \<^const>\<open>None\<close> is the
  \<^verbatim>\<open>None\<close> of \<^verbatim>\<open>select_one\<close>, a list is the result set of \<^verbatim>\<open>select\<close>.
\<close>

record anchor =
  a_text :: string
  a_href :: "string option"

record img =
  img_src :: "string option"

record mp_card =
  shujaa_details_a :: "anchor option"
  shujaa_details_p :: "string option"
  mp_pic_img :: "img option"

record election_results =
  election_date :: "string option"
  election_votes :: "string option"

record contact_section =
  mailto_href :: "string option"
  tel_hrefs :: "string list"
  address :: "string option"
  twitter_href :: "string option"
  facebook_href :: "string option"

record education_entry =
  qualification :: "string option"
  education_text :: string

record position_entry =
  position_title :: "string option"
  position_text :: string
  position_org :: "string option"
  position_date :: "string option"
  position_date_fallback :: "string option"

record experience_section =
  education_entries :: "education_entry list"
  education_fallback :: "education_entry list"
  position_entries :: "position_entry list"
  position_fallback :: "position_entry list"

record statement =
  statement_date :: "string option"
  statement_date_fallback :: "string option"
  statement_text :: "string option"
  statement_text_fallback :: "string option"

record attendance_entry =
  has_th :: bool
  period_elem :: "string option"
  td1 :: "string option"
  present_elem :: "string option"
  td2 :: "string option"
  absent_elem :: "string option"
  td3 :: "string option"

record attendance_section =
  attendance_records :: "attendance_entry list"
  table_rows :: "attendance_entry list"

record committees_section =
  committee_elems :: "string list"
  li_elems :: "string list"

record document =
  mp_cards :: "mp_card list"
  number_box_links :: "anchor list"
  person_party_membership :: "string option"
  location_a :: "string option"
  election_results_elem :: "election_results option"
  contact_by_id :: "contact_section option"
  contact_details :: "contact_section option"
  experience_by_id :: "experience_section option"
  person_detail_experience :: "experience_section list"
  statements_by_id :: "statement list"
  statements_by_class :: "statement list"
  attendance_by_id :: "attendance_section option"
  attendance_by_class :: "attendance_section option"
  committees_by_id :: "committees_section option"
  committees_by_class :: "committees_section option"

text \<open>The text of a response: empty, or markup.\<close>

datatype html = EmptyText | Markup document

text \<open>
  \<^verbatim>\<open>not html\<close> for the result of \<^verbatim>\<open>get_page\<close>, which is \<^verbatim>\<open>None\<close> or a text.
\<close>

fun not_html :: "html option \<Rightarrow> bool" where
  "not_html None = True"
| "not_html (Some EmptyText) = True"
| "not_html (Some (Markup d)) = False"

text \<open>
  \<^verbatim>\<open>a or b\<close> on the results of two selectors: an element is always true, \<^verbatim>\<open>None\<close> and
  an empty result set are false.
\<close>

definition or_elem :: "'a option \<Rightarrow> 'a option \<Rightarrow> 'a option" where
  "or_elem a b = (case a of Some x \<Rightarrow> Some x | None \<Rightarrow> b)"

definition or_list :: "'a list \<Rightarrow> 'a list \<Rightarrow> 'a list" where
  "or_list a b = (if a \<noteq> [] then a else b)"

section \<open>The scraper and the world outside\<close>

text \<open>
  \<^verbatim>\<open>self\<close>: the configuration of \<^verbatim>\<open>EnhancedMzalendoScraper\<close>, and what the scraper does not
  compute itself: \<^verbatim>\<open>urllib.parse.urljoin\<close>; the outcome of \<^verbatim>\<open>session.get\<close> followed by
  \<^verbatim>\<open>raise_for_status\<close> for a URL at a given attempt (\<^const>\<open>None\<close> when a
  \<^verbatim>\<open>RequestException\<close> is raised, otherwise the text of the response), the same whenever
  the URL is fetched again; and whether \<^verbatim>\<open>open(filename, 'w')\<close> succeeds. The sleeps and
  the log are not modelled.
\<close>

record scraper =
  output_dir :: string
  max_workers :: int
  urljoin :: "string \<Rightarrow> string \<Rightarrow> string"
  session_get :: "string \<Rightarrow> nat \<Rightarrow> html option"
  can_open :: "string \<Rightarrow> bool"

definition base_url :: string where
  "base_url = ''https://mzalendo.com''"

section \<open>Fetcher\<close>

text \<open>
  \<^verbatim>\<open>get_page\<close>: the loop over \<^verbatim>\<open>range(retry_count)\<close>, with the attempt index and the
  number of attempts left. The first successful attempt returns the text; the failure of
  the last attempt, or a loop that never ran, returns \<^verbatim>\<open>None\<close>.
\<close>

fun get_page_loop :: "(nat \<Rightarrow> html option) \<Rightarrow> nat \<Rightarrow> nat \<Rightarrow> html option" where
  "get_page_loop get attempt 0 = None"
| "get_page_loop get attempt (Suc left) =
     (case get attempt of
        Some response_text \<Rightarrow> Some response_text
      | None \<Rightarrow> get_page_loop get (Suc attempt) left)"

definition retry_count :: nat where
  "retry_count = 3"

definition get_page :: "scraper \<Rightarrow> string \<Rightarrow> html option" where
  "get_page self url = get_page_loop (session_get self url) 0 retry_count"

section \<open>List extractor\<close>

text \<open>
  One pass of the loop body of \<^verbatim>\<open>parse_politician_list_page\<close>: \<^const>\<open>Inl\<close> is an exception
  raised in the body (the \<^verbatim>\<open>KeyError\<close> of \<^verbatim>\<open>name_elem['href']\<close>), \<^term>\<open>Inr None\<close> the
  \<^verbatim>\<open>continue\<close> of a card without name link.
\<close>

definition parse_item :: "scraper \<Rightarrow> string \<Rightarrow> mp_card \<Rightarrow> exn + politician option" where
  "parse_item self cat item =
     (case shujaa_details_a item of
        None \<Rightarrow> Inr None
      | Some name_elem \<Rightarrow>
          (case a_href name_elem of
             None \<Rightarrow> Inl KeyError
           | Some href \<Rightarrow>
               (let position_text =
                      (case shujaa_details_p item of
                         Some t \<Rightarrow> strip t
                       | None \<Rightarrow> ''Unknown'');
                    constituency_match =
                      (if sublist ''Member for'' position_text
                       then map_option strip (search_member_for position_text)
                       else None);
                    image =
                      (case mp_pic_img item of
                         None \<Rightarrow> None
                       | Some img_elem \<Rightarrow>
                           (case img_src img_elem of
                              None \<Rightarrow> None
                            | Some src \<Rightarrow>
                                (let u = urljoin self base_url src
                                 in if suffix ''default-person.jpg'' u then None else Some u)))
                in Inr (Some
                     \<lparr> name = strip (a_text name_elem),
                       position = position_text,
                       constituency = constituency_match,
                       county = None,
                       profile_url = urljoin self base_url href,
                       image_url = image,
                       category = cat,
                       politician_id = None, party = None, election = None, contact = None,
                       education = None, positions = None, promises = None,
                       attendance = None, committees = None, approvalRating = None,
                       keyAchievements = None, subcategory = None \<rparr>))))"

text \<open>The loop: an exception in one card is caught and the card is skipped.\<close>

fun parse_items :: "scraper \<Rightarrow> string \<Rightarrow> mp_card list \<Rightarrow> politician list" where
  "parse_items self cat [] = []"
| "parse_items self cat (item # items) =
     (case parse_item self cat item of
        Inr (Some politician) \<Rightarrow> politician # parse_items self cat items
      | Inr None \<Rightarrow> parse_items self cat items
      | Inl e \<Rightarrow> parse_items self cat items)"

definition parse_politician_list_page :: "scraper \<Rightarrow> html option \<Rightarrow> string \<Rightarrow> politician list" where
  "parse_politician_list_page self page cat =
     (case page of
        Some (Markup soup) \<Rightarrow> parse_items self cat (mp_cards soup)
      | _ \<Rightarrow> [])"

text \<open>
  \<^verbatim>\<open>get_pagination_links\<close>. The links with an \<^verbatim>\<open>href\<close> are joined to the base URL.
\<close>

fun collect_page_urls :: "scraper \<Rightarrow> anchor list \<Rightarrow> string list" where
  "collect_page_urls self [] = []"
| "collect_page_urls self (link # links) =
     (case a_href link of
        Some href \<Rightarrow> urljoin self base_url href # collect_page_urls self links
      | None \<Rightarrow> collect_page_urls self links)"

text \<open>
  \<^verbatim>\<open>[x for x in page_urls if not (x in seen or seen.add(x))]\<close>, with the set \<^verbatim>\<open>seen\<close>
  passed along.
\<close>

fun unseen :: "string set \<Rightarrow> string list \<Rightarrow> string list" where
  "unseen seen [] = []"
| "unseen seen (x # xs) =
     (if x \<in> seen then unseen seen xs else x # unseen (insert x seen) xs)"

text \<open>
  The \<^verbatim>\<open>return\<close> of the function stands inside the \<^verbatim>\<open>if\<close>: when some collected URL
  contains \<^verbatim>\<open>page=1\<close> the function ends without a \<^verbatim>\<open>return\<close>, and its value is Python's
  \<^verbatim>\<open>None\<close>, here \<^const>\<open>None\<close>.
\<close>

definition get_pagination_links :: "scraper \<Rightarrow> document \<Rightarrow> string list option" where
  "get_pagination_links self soup =
     (let page_urls = collect_page_urls self (number_box_links soup)
      in if \<not> list_ex (\<lambda>url. sublist ''page=1'' url) page_urls
         then Some (unseen {} (urljoin self base_url ''/parliament/national_assembly/'' # page_urls))
         else None)"

section \<open>Floating point\<close>

text \<open>
  The three float operations of the approval rating. A finite double is given by its
  exact rational value: it is \<open>m * 2 ^ s\<close> with \<open>m \<le> 2 ^ 53\<close> and \<open>s \<ge> - 1074\<close>. Rounding
  is to the nearest double, ties to the even mantissa, and a result of \<open>2 ^ 1024\<close> or
  more overflows. The values here are never negative.
\<close>

text \<open>\<^verbatim>\<open>int.bit_length\<close> of a positive integer.\<close>

function bit_length :: "int \<Rightarrow> int" where
  "bit_length n = (if n \<le> 0 then 0 else 1 + bit_length (n div 2))"
  by pat_completeness auto
termination
  by (relation "measure nat") auto

declare bit_length.simps [simp del]

definition pow2 :: "int \<Rightarrow> rat" where
  "pow2 e = (if 0 \<le> e then 2 ^ nat e else 1 / 2 ^ nat (- e))"

text \<open>
  The quotient \<open>a / (b * 2 ^ s)\<close> of two positive integers, scaled by a power of two, and
  its rounding to the nearest integer, ties to even.
\<close>

definition scaled_le :: "int \<Rightarrow> int \<Rightarrow> int \<Rightarrow> bool" where
  "scaled_le s b a = (if 0 \<le> s then b * 2 ^ nat s \<le> a else b \<le> a * 2 ^ nat (- s))"

definition round_half_even_div :: "int \<Rightarrow> int \<Rightarrow> int" where
  "round_half_even_div num den =
     (let q = num div den; r = num mod den
      in if 2 * r < den then q
         else if den < 2 * r then q + 1
         else if even q then q else q + 1)"

definition scaled_round :: "int \<Rightarrow> int \<Rightarrow> int \<Rightarrow> int" where
  "scaled_round s a b =
     (if 0 \<le> s then round_half_even_div a (b * 2 ^ nat s)
      else round_half_even_div (a * 2 ^ nat (- s)) b)"

text \<open>
  The double nearest to \<open>a / b\<close>, for \<open>b > 0\<close>: \<open>e\<close> is the exponent with
  \<open>2 ^ e \<le> a / b < 2 ^ (e + 1)\<close>, which is the difference of the bit lengths or one less,
  \<open>2 ^ s\<close> is the distance of two doubles at that exponent, and \<open>m\<close> the mantissa.
\<close>

definition to_double_ratio :: "int \<Rightarrow> int \<Rightarrow> pyfloat" where
  "to_double_ratio a b =
     (if a \<le> 0 then Finite 0
      else (let d = bit_length a - bit_length b;
                e = (if scaled_le d b a then d else d - 1);
                s = max e (- 1022) - 52;
                m = scaled_round s a b
            in if 0 \<le> s \<and> 2 ^ 1024 \<le> m * 2 ^ nat s then Infinity
               else Finite (of_int m * pow2 s)))"

definition to_double :: "rat \<Rightarrow> pyfloat" where
  "to_double x = (let (a, b) = quotient_of x in to_double_ratio a b)"

text \<open>
  \<^verbatim>\<open>a / b\<close> on two integers that are not negative: the correctly rounded quotient,
  \<^verbatim>\<open>OverflowError\<close> when it is too large for a float.
\<close>

definition int_truediv :: "int \<Rightarrow> int \<Rightarrow> exn + pyfloat" where
  "int_truediv a b =
     (if b = 0 then Inl ZeroDivisionError
      else (case to_double_ratio a b of
              Infinity \<Rightarrow> Inl OverflowError
            | Finite v \<Rightarrow> Inr (Finite v)))"

text \<open>\<^verbatim>\<open>x * 5\<close> on a float: an overflow gives an infinity, no exception.\<close>

definition float_mul :: "pyfloat \<Rightarrow> rat \<Rightarrow> pyfloat" where
  "float_mul x y = (case x of Infinity \<Rightarrow> Infinity | Finite v \<Rightarrow> to_double (v * y))"

text \<open>
  \<^verbatim>\<open>round(x, 1)\<close>: the value of the double is rounded to one decimal, ties to the even
  digit, and the decimal is converted back to the nearest double.
\<close>

definition round1 :: "pyfloat \<Rightarrow> pyfloat" where
  "round1 x =
     (case x of
        Infinity \<Rightarrow> Infinity
      | Finite v \<Rightarrow>
          (let (a, b) = quotient_of (v * 10)
           in to_double_ratio (round_half_even_div a b) 10))"

section \<open>Detail extractor\<close>

text \<open>
  The body of the \<^verbatim>\<open>try\<close> block of \<^verbatim>\<open>parse_politician_detail_page\<close> is a sequence of
  sections. Each takes the document and \<^verbatim>\<open>politician_data\<close> and returns the updated
  dictionary, or the exception it raises; every section assigns to \<^verbatim>\<open>politician_data\<close>
  only after its last statement that can raise.
\<close>

definition party_section :: "document \<Rightarrow> politician \<Rightarrow> exn + politician" where
  "party_section soup politician_data =
     (case person_party_membership soup of
        None \<Rightarrow> Inr politician_data
      | Some party_elem \<Rightarrow>
          (case search_member_of (strip party_elem) of
             None \<Rightarrow> Inr politician_data
           | Some party_match \<Rightarrow> Inr (politician_data\<lparr>party := Some (strip party_match)\<rparr>)))"

definition county_section :: "document \<Rightarrow> politician \<Rightarrow> exn + politician" where
  "county_section soup politician_data =
     (case location_a soup of
        None \<Rightarrow> Inr politician_data
      | Some county_elem \<Rightarrow>
          (let county_text = strip county_elem
           in if sublist ''County'' county_text
              then Inr (politician_data\<lparr>county := Some (strip (replace county_text ''County'' ''''))\<rparr>)
              else Inr politician_data))"

text \<open>
  A count, of votes or of sessions: \<^verbatim>\<open>int\<close> of the first run of digits in the text of
  the element, when there is an element and a digit in it.
\<close>

definition count_of :: "string option \<Rightarrow> exn + int option" where
  "count_of elem =
     (case elem of
        None \<Rightarrow> Inr None
      | Some t \<Rightarrow>
          (case search_digits (strip t) of
             None \<Rightarrow> Inr None
           | Some digits \<Rightarrow>
               (case py_int digits of
                  Inl e \<Rightarrow> Inl e
                | Inr n \<Rightarrow> Inr (Some n))))"

definition election_section :: "document \<Rightarrow> politician \<Rightarrow> exn + politician" where
  "election_section soup politician_data =
     (case election_results_elem soup of
        None \<Rightarrow> Inr politician_data
      | Some election_elem \<Rightarrow>
          (case count_of (election_votes election_elem) of
             Inl e \<Rightarrow> Inl e
           | Inr votes \<Rightarrow>
               (let elected = map_option strip (election_date election_elem)
                in if elected \<noteq> None \<or> votes \<noteq> None
                   then Inr (politician_data\<lparr>election :=
                          Some \<lparr> electedDate = elected, totalVotes = votes \<rparr>\<rparr>)
                   else Inr politician_data)))"

definition contact_info_section :: "document \<Rightarrow> politician \<Rightarrow> exn + politician" where
  "contact_info_section soup politician_data =
     (case or_elem (contact_by_id soup) (contact_details soup) of
        None \<Rightarrow> Inr politician_data
      | Some contact_elem \<Rightarrow>
          (let mail = map_option (\<lambda>h. strip (replace h ''mailto:'' '''')) (mailto_href contact_elem);
               phones =
                 (if tel_hrefs contact_elem \<noteq> []
                  then Some (map (\<lambda>h. strip (replace h ''tel:'' '''')) (tel_hrefs contact_elem))
                  else None);
               office_text = map_option strip (address contact_elem);
               tw = map_option strip (twitter_href contact_elem);
               fb = map_option strip (facebook_href contact_elem);
               social =
                 (if tw \<noteq> None \<or> fb \<noteq> None then Some \<lparr> twitter = tw, facebook = fb \<rparr> else None)
           in if mail \<noteq> None \<or> phones \<noteq> None \<or> office_text \<noteq> None \<or> social \<noteq> None
              then Inr (politician_data\<lparr>contact :=
                     Some \<lparr> email = mail, phone = phones, office = office_text, socialMedia = social \<rparr>\<rparr>)
              else Inr politician_data))"

text \<open>The education entries: the texts longer than five characters.\<close>

definition education_of :: "education_entry list \<Rightarrow> string list" where
  "education_of entries =
     filter (\<lambda>t. t \<noteq> [] \<and> 5 < length t)
       (map (\<lambda>entry. strip (case qualification entry of
                               Some q \<Rightarrow> q
                             | None \<Rightarrow> education_text entry)) entries)"

text \<open>The position entries: an entry without title text is skipped.\<close>

fun positions_of :: "position_entry list \<Rightarrow> position_info list" where
  "positions_of [] = []"
| "positions_of (entry # entries) =
     (let title_text = strip (case position_title entry of
                                Some t \<Rightarrow> t
                              | None \<Rightarrow> position_text entry)
      in if title_text = [] then positions_of entries
         else \<lparr> title = title_text,
                organization = map_option strip (position_org entry),
                date =
                  (case or_elem (position_date entry) (position_date_fallback entry) of
                     None \<Rightarrow> None
                   | Some date_elem \<Rightarrow>
                       (if strip date_elem \<noteq> [] then Some (strip date_elem) else None)) \<rparr>
              # positions_of entries)"

text \<open>
  \<^verbatim>\<open>soup.select_one('#experience') or soup.select('.person-detail-experience')\<close>: without
  an element of that id the section is a result set, and when that is not empty the first
  \<^verbatim>\<open>experience_section.select\<close> raises \<^verbatim>\<open>AttributeError\<close>.
\<close>

definition experience_section_parse :: "document \<Rightarrow> politician \<Rightarrow> exn + politician" where
  "experience_section_parse soup politician_data =
     (case experience_by_id soup of
        None \<Rightarrow>
          (if person_detail_experience soup \<noteq> [] then Inl AttributeError
           else Inr politician_data)
      | Some experience_elem \<Rightarrow>
          (let edu = education_of (or_list (education_entries experience_elem)
                                    (education_fallback experience_elem));
               pos = positions_of (or_list (position_entries experience_elem)
                                     (position_fallback experience_elem));
               with_education =
                 (if edu \<noteq> [] then politician_data\<lparr>education := Some edu\<rparr> else politician_data)
           in Inr (if pos \<noteq> [] then with_education\<lparr>positions := Some pos\<rparr> else with_education)))"

text \<open>
  The due date of a promise. \<^verbatim>\<open>year, month, day = date_text.split('-')\<close> raises
  \<^verbatim>\<open>ValueError\<close> unless the text has exactly three parts.
\<close>

definition due_date :: "string \<Rightarrow> exn + string option" where
  "due_date date_text =
     (if match_iso_date date_text
      then (case split CHR ''-'' date_text of
              [year, month, day] \<Rightarrow>
                (case py_int year of
                   Inl e \<Rightarrow> Inl e
                 | Inr y \<Rightarrow> Inr (Some (str_of_int (y + 3) @ ''-'' @ month @ ''-'' @ day)))
            | _ \<Rightarrow> Inl ValueError)
      else Inr None)"

text \<open>One statement with a non-empty text, as the promise number \<open>n\<close>.\<close>

definition make_promise :: "nat \<Rightarrow> string \<Rightarrow> string option \<Rightarrow> exn + promise" where
  "make_promise n promise_text statement_date_elem =
     (let p = \<lparr> promise_id = ''pr'' @ str_of_int (int n),
                 description = promise_text,
                 promise_category = categorize_promise promise_text,
                 madeDate = None, dueDate = None,
                 status = ''in-progress'' \<rparr>
      in case statement_date_elem of
           None \<Rightarrow> Inr p
         | Some date_elem \<Rightarrow>
             (let date_text = strip date_elem
              in if date_text = [] then Inr p
                 else (case due_date date_text of
                         Inl e \<Rightarrow> Inl e
                       | Inr due \<Rightarrow> Inr (p\<lparr>madeDate := Some date_text, dueDate := due\<rparr>))))"

text \<open>The loop over the statements, with the list \<^verbatim>\<open>promises\<close> built so far.\<close>

fun promises_loop :: "statement list \<Rightarrow> promise list \<Rightarrow> exn + promise list" where
  "promises_loop [] promises_so_far = Inr promises_so_far"
| "promises_loop (st # sts) promises_so_far =
     (case or_elem (statement_text st) (statement_text_fallback st) of
        None \<Rightarrow> promises_loop sts promises_so_far
      | Some text_elem \<Rightarrow>
          (if strip text_elem = [] then promises_loop sts promises_so_far
           else (case make_promise (length promises_so_far + 1) (strip text_elem)
                        (or_elem (statement_date st) (statement_date_fallback st)) of
                   Inl e \<Rightarrow> Inl e
                 | Inr p \<Rightarrow> promises_loop sts (promises_so_far @ [p]))))"

definition promises_section :: "document \<Rightarrow> politician \<Rightarrow> exn + politician" where
  "promises_section soup politician_data =
     (case promises_loop (or_list (statements_by_id soup) (statements_by_class soup)) [] of
        Inl e \<Rightarrow> Inl e
      | Inr ps \<Rightarrow>
          Inr (if ps \<noteq> [] then politician_data\<lparr>promises := Some ps\<rparr> else politician_data))"

text \<open>One row with a period: the record, or the exception of one of its two counts.\<close>

definition attendance_record_of :: "string \<Rightarrow> attendance_entry \<Rightarrow> exn + attendance_record" where
  "attendance_record_of period_text entry =
     (case count_of (or_elem (present_elem entry) (td2 entry)) of
        Inl e \<Rightarrow> Inl e
      | Inr pr \<Rightarrow>
          (case count_of (or_elem (absent_elem entry) (td3 entry)) of
             Inl e \<Rightarrow> Inl e
           | Inr ab \<Rightarrow>
               Inr \<lparr> period = period_text, present = pr, absent = ab,
                     total = (case (pr, ab) of
                                (Some x, Some y) \<Rightarrow> Some (x + y)
                              | _ \<Rightarrow> None) \<rparr>))"

text \<open>The loop over the rows, with the list \<^verbatim>\<open>attendance\<close> built so far.\<close>

fun attendance_of ::
  "attendance_entry list \<Rightarrow> attendance_record list \<Rightarrow> exn + attendance_record list" where
  "attendance_of [] so_far = Inr so_far"
| "attendance_of (entry # entries) so_far =
     (if has_th entry then attendance_of entries so_far
      else (case or_elem (period_elem entry) (td1 entry) of
              None \<Rightarrow> attendance_of entries so_far
            | Some period_text \<Rightarrow>
                (if strip period_text = [] then attendance_of entries so_far
                 else (case attendance_record_of (strip period_text) entry of
                         Inl e \<Rightarrow> Inl e
                       | Inr r \<Rightarrow> attendance_of entries (so_far @ [r])))))"

definition attendance_section_parse :: "document \<Rightarrow> politician \<Rightarrow> exn + politician" where
  "attendance_section_parse soup politician_data =
     (case or_elem (attendance_by_id soup) (attendance_by_class soup) of
        None \<Rightarrow> Inr politician_data
      | Some attendance_elem \<Rightarrow>
          (case attendance_of (or_list (attendance_records attendance_elem)
                                 (table_rows attendance_elem)) [] of
             Inl e \<Rightarrow> Inl e
           | Inr records \<Rightarrow>
               Inr (if records \<noteq> [] then politician_data\<lparr>attendance := Some records\<rparr>
                    else politician_data)))"

definition committees_section_parse :: "document \<Rightarrow> politician \<Rightarrow> exn + politician" where
  "committees_section_parse soup politician_data =
     (case or_elem (committees_by_id soup) (committees_by_class soup) of
        None \<Rightarrow> Inr politician_data
      | Some committees_elem \<Rightarrow>
          (let names = filter (\<lambda>t. t \<noteq> [])
                         (map strip (or_list (committee_elems committees_elem)
                                       (li_elems committees_elem)))
           in Inr (if names \<noteq> [] then politician_data\<lparr>committees := Some names\<rparr>
                   else politician_data)))"

text \<open>
  The approval rating: \<^verbatim>\<open>record.get('present', 0)\<close> and \<^verbatim>\<open>record.get('total', 0)\<close> are
  summed over all records.
\<close>

definition total_present :: "attendance_record list \<Rightarrow> int" where
  "total_present records = sum_list (map (\<lambda>r. case present r of Some n \<Rightarrow> n | None \<Rightarrow> 0) records)"

definition total_sessions :: "attendance_record list \<Rightarrow> int" where
  "total_sessions records = sum_list (map (\<lambda>r. case total r of Some n \<Rightarrow> n | None \<Rightarrow> 0) records)"

definition approval_rating :: "attendance_record list \<Rightarrow> exn + pyfloat" where
  "approval_rating records =
     (case int_truediv (total_present records) (total_sessions records) of
        Inl e \<Rightarrow> Inl e
      | Inr ratio \<Rightarrow> Inr (round1 (float_mul ratio 5)))"

definition approval_section :: "document \<Rightarrow> politician \<Rightarrow> exn + politician" where
  "approval_section soup politician_data =
     (case attendance politician_data of
        None \<Rightarrow> Inr politician_data
      | Some records \<Rightarrow>
          (if records \<noteq> [] \<and> 0 < total_sessions records
           then (case approval_rating records of
                   Inl e \<Rightarrow> Inl e
                 | Inr rating \<Rightarrow> Inr (politician_data\<lparr>approvalRating := Some rating\<rparr>))
           else Inr politician_data))"

definition achievements_section :: "document \<Rightarrow> politician \<Rightarrow> exn + politician" where
  "achievements_section soup politician_data =
     (case promises politician_data of
        None \<Rightarrow> Inr politician_data
      | Some ps \<Rightarrow>
          (let achievements = map description (take 5 ps)
           in if ps \<noteq> [] \<and> achievements \<noteq> []
              then Inr (politician_data\<lparr>keyAchievements := Some achievements\<rparr>)
              else Inr politician_data))"

text \<open>The sections in the order of the source.\<close>

definition detail_sections :: "(document \<Rightarrow> politician \<Rightarrow> exn + politician) list" where
  "detail_sections =
     [party_section, county_section, election_section, contact_info_section,
      experience_section_parse, promises_section, attendance_section_parse,
      committees_section_parse, approval_section, achievements_section]"

text \<open>
  The \<^verbatim>\<open>try\<close> block: the first exception ends it, the \<^verbatim>\<open>except\<close> clause logs the
  exception, and \<^verbatim>\<open>politician_data\<close> is returned as the sections before left it. The
  result holds the logged exception, if any.
\<close>

fun run_sections ::
  "(document \<Rightarrow> politician \<Rightarrow> exn + politician) list \<Rightarrow> document \<Rightarrow> politician
     \<Rightarrow> politician \<times> exn option" where
  "run_sections [] soup politician_data = (politician_data, None)"
| "run_sections (sec # secs) soup politician_data =
     (case sec soup politician_data of
        Inl e \<Rightarrow> (politician_data, Some e)
      | Inr updated \<Rightarrow> run_sections secs soup updated)"

text \<open>\<^verbatim>\<open>basic_info['profile_url'].strip('/').split('/')[-1]\<close>.\<close>

definition id_of_url :: "string \<Rightarrow> string" where
  "id_of_url url = last (split CHR ''/'' (strip_with (\<lambda>c. c = CHR ''/'') url))"

definition parse_detail_logged :: "html option \<Rightarrow> politician \<Rightarrow> politician \<times> exn option" where
  "parse_detail_logged page basic_info =
     (case page of
        Some (Markup soup) \<Rightarrow>
          run_sections detail_sections soup
            (basic_info\<lparr>politician_id := Some (id_of_url (profile_url basic_info))\<rparr>)
      | _ \<Rightarrow> (basic_info, None))"

definition parse_politician_detail_page :: "html option \<Rightarrow> politician \<Rightarrow> politician" where
  "parse_politician_detail_page page basic_info = fst (parse_detail_logged page basic_info)"

section \<open>Persistence\<close>

text \<open>
  \<^verbatim>\<open>os.path.join\<close> on a POSIX system, for two parts: a second part that starts with a
  slash replaces the first, and a slash is put between the parts unless the first is
  empty or ends with one.
\<close>

definition path_join :: "string \<Rightarrow> string \<Rightarrow> string" where
  "path_join a b =
     (if prefix ''/'' b then b
      else if a = [] \<or> suffix ''/'' a then a @ b
      else a @ ''/'' @ b)"

definition file_id :: "politician \<Rightarrow> string" where
  "file_id politician_data =
     sub_non_word (case politician_id politician_data of
                     None \<Rightarrow> replace (lower (name politician_data)) '' '' ''-''
                   | Some i \<Rightarrow> i)"

definition file_name :: "scraper \<Rightarrow> politician \<Rightarrow> string \<Rightarrow> string" where
  "file_name self politician_data cat =
     path_join (path_join (output_dir self) cat) (file_id politician_data @ ''.json'')"

text \<open>
  \<^verbatim>\<open>json.dump\<close> writes every integer of the dictionary with \<^verbatim>\<open>int.__repr__\<close>, which
  raises \<^verbatim>\<open>ValueError\<close> on an integer of too many digits; the integers are the votes
  and the counts of the attendance records.
\<close>

definition record_ints :: "attendance_record \<Rightarrow> int list" where
  "record_ints r =
     (case present r of Some n \<Rightarrow> [n] | None \<Rightarrow> [])
     @ (case absent r of Some n \<Rightarrow> [n] | None \<Rightarrow> [])
     @ (case total r of Some n \<Rightarrow> [n] | None \<Rightarrow> [])"

definition politician_ints :: "politician \<Rightarrow> int list" where
  "politician_ints politician_data =
     (case election politician_data of
        None \<Rightarrow> []
      | Some election_data \<Rightarrow>
          (case totalVotes election_data of Some n \<Rightarrow> [n] | None \<Rightarrow> []))
     @ (case attendance politician_data of
          None \<Rightarrow> []
        | Some records \<Rightarrow> concat (map record_ints records))"

text \<open>
  \<^verbatim>\<open>save_politician_data\<close>: \<^verbatim>\<open>open\<close> raises \<^verbatim>\<open>OSError\<close> when the file cannot be
  opened, then the dump may raise. The file written is the pair of its name and the
  dictionary dumped into it; a dump that raises leaves a file cut short, which is not
  recorded.
\<close>

definition save_politician_data ::
  "scraper \<Rightarrow> politician \<Rightarrow> string \<Rightarrow> exn + (string \<times> politician)" where
  "save_politician_data self politician_data cat =
     (if \<not> can_open self (file_name self politician_data cat) then Inl OSError
      else if list_ex repr_raises (politician_ints politician_data) then Inl ValueError
      else Inr (file_name self politician_data cat, politician_data))"

section \<open>Orchestrator\<close>

text \<open>\<^verbatim>\<open>if subcategory:\<close> on an optional text.\<close>

definition tag_subcategory :: "string option \<Rightarrow> politician \<Rightarrow> politician" where
  "tag_subcategory sub detailed_data =
     (case sub of
        None \<Rightarrow> detailed_data
      | Some s \<Rightarrow> (if s \<noteq> [] then detailed_data\<lparr>subcategory := Some s\<rparr> else detailed_data))"

text \<open>
  The body of the \<^verbatim>\<open>try\<close> block for one politician, the same in \<^verbatim>\<open>scrape_leaders\<close> and
  in \<^verbatim>\<open>process_politician\<close> of \<^verbatim>\<open>scrape_leaders_threaded\<close>: the detailed data and the
  file written, or the exception raised.
\<close>

definition process_body ::
  "scraper \<Rightarrow> string \<Rightarrow> string option \<Rightarrow> politician \<Rightarrow> exn + (politician \<times> (string \<times> politician))" where
  "process_body self cat sub p =
     (let detail_html = get_page self (profile_url p);
          detailed_data = tag_subcategory sub (parse_politician_detail_page detail_html p)
      in case save_politician_data self detailed_data cat of
           Inl e \<Rightarrow> Inl e
         | Inr written \<Rightarrow> Inr (detailed_data, written))"

text \<open>
  The listing pages: the politicians of the seed page, then those of every pagination
  URL. Iterating over the \<^verbatim>\<open>None\<close> that \<^verbatim>\<open>get_pagination_links\<close> may return raises
  \<^verbatim>\<open>TypeError\<close>, outside every \<^verbatim>\<open>try\<close>.
\<close>

definition collect_politicians :: "scraper \<Rightarrow> document \<Rightarrow> string \<Rightarrow> exn + politician list" where
  "collect_politicians self soup cat =
     (case get_pagination_links self soup of
        None \<Rightarrow> Inl TypeError
      | Some pagination_urls \<Rightarrow>
          Inr (parse_politician_list_page self (Some (Markup soup)) cat
               @ concat (map (\<lambda>page_url.
                   parse_politician_list_page self (get_page self page_url) cat) pagination_urls)))"

text \<open>
  The sequential loop of \<^verbatim>\<open>scrape_leaders\<close>: an exception for one politician is caught
  and the loop continues. The result is \<^verbatim>\<open>detailed_politicians\<close> and the files written,
  in the order of writing.
\<close>

fun detail_loop ::
  "scraper \<Rightarrow> string \<Rightarrow> string option \<Rightarrow> politician list
     \<Rightarrow> politician list \<times> (string \<times> politician) list" where
  "detail_loop self cat sub [] = ([], [])"
| "detail_loop self cat sub (p # ps) =
     (case process_body self cat sub p of
        Inl e \<Rightarrow> detail_loop self cat sub ps
      | Inr (detailed_data, written) \<Rightarrow>
          (case detail_loop self cat sub ps of
             (detailed_politicians, files) \<Rightarrow> (detailed_data # detailed_politicians, written # files)))"

definition scrape_leaders ::
  "scraper \<Rightarrow> string \<Rightarrow> string \<Rightarrow> string option
     \<Rightarrow> exn + (politician list \<times> (string \<times> politician) list)" where
  "scrape_leaders self url cat sub =
     (case get_page self url of
        Some (Markup soup) \<Rightarrow>
          (case collect_politicians self soup cat of
             Inl e \<Rightarrow> Inl e
           | Inr politicians \<Rightarrow> Inr (detail_loop self cat sub politicians))
      | _ \<Rightarrow> Inr ([], []))"

text \<open>
  \<^verbatim>\<open>scrape_leaders_threaded\<close>. \<^verbatim>\<open>process_politician\<close> returns \<^verbatim>\<open>None\<close> for a caught
  exception. \<^verbatim>\<open>ThreadPoolExecutor(max_workers=self.max_workers)\<close> raises \<^verbatim>\<open>ValueError\<close>
  for a number of workers that is not positive, outside every \<^verbatim>\<open>try\<close>. \<^verbatim>\<open>executor.map\<close> returns the results in the order of the politicians,
  whatever the order the worker threads run in; that order, \<open>schedule\<close>, a list of
  positions in the list of politicians, decides only the order in which the files are
  written.
\<close>

definition process_politician ::
  "scraper \<Rightarrow> string \<Rightarrow> string option \<Rightarrow> politician \<Rightarrow> (politician \<times> (string \<times> politician)) option" where
  "process_politician self cat sub p =
     (case process_body self cat sub p of
        Inl e \<Rightarrow> None
      | Inr r \<Rightarrow> Some r)"

definition files_in_order ::
  "nat list \<Rightarrow> (politician \<times> (string \<times> politician)) option list \<Rightarrow> (string \<times> politician) list" where
  "files_in_order schedule results =
     concat (map (\<lambda>i. if i < length results
                       then (case results ! i of
                               Some (detailed_data, written) \<Rightarrow> [written]
                             | None \<Rightarrow> [])
                       else []) schedule)"

definition scrape_leaders_threaded ::
  "scraper \<Rightarrow> nat list \<Rightarrow> string \<Rightarrow> string \<Rightarrow> string option
     \<Rightarrow> exn + (politician list \<times> (string \<times> politician) list)" where
  "scrape_leaders_threaded self schedule url cat sub =
     (case get_page self url of
        Some (Markup soup) \<Rightarrow>
          (case collect_politicians self soup cat of
             Inl e \<Rightarrow> Inl e
           | Inr politicians \<Rightarrow>
               (if max_workers self \<le> 0 then Inl ValueError
                else (let results = map (process_politician self cat sub) politicians
                      in Inr (map fst (concat (map (\<lambda>r. case r of Some x \<Rightarrow> [x] | None \<Rightarrow> [])
                                                results)),
                              files_in_order schedule results))))
      | _ \<Rightarrow> Inr ([], []))"

section \<open>Example inputs\<close>

text \<open>
  For the base URL of the site, which has no path, and a reference that starts with a
  slash or a question mark, \<^verbatim>\<open>urljoin\<close> returns the base followed by the reference; the
  examples use references of this kind only.
\<close>

definition concat_join :: "string \<Rightarrow> string \<Rightarrow> string" where
  "concat_join base reference = base @ reference"

definition blank_document :: document where
  "blank_document =
     \<lparr> mp_cards = [], number_box_links = [],
       person_party_membership = None, location_a = None, election_results_elem = None,
       contact_by_id = None, contact_details = None, experience_by_id = None,
       person_detail_experience = [], statements_by_id = [], statements_by_class = [],
       attendance_by_id = None, attendance_by_class = None, committees_by_id = None,
       committees_by_class = None \<rparr>"

definition numbered_links :: "string list \<Rightarrow> anchor list" where
  "numbered_links hrefs = map (\<lambda>h. \<lparr> a_text = ''n'', a_href = Some h \<rparr>) hrefs"

text \<open>A scraper whose site serves the given pages and fails on every other URL.\<close>

definition site :: "(string \<times> document) list \<Rightarrow> scraper" where
  "site pages =
     \<lparr> output_dir = ''scraped_data'', max_workers = 5, urljoin = concat_join,
       session_get = (\<lambda>url attempt. map_option Markup (map_of pages url)),
       can_open = (\<lambda>filename. True) \<rparr>"

text \<open>A senate listing with links to its pages 2 and 3.\<close>

definition senate_listing :: document where
  "senate_listing =
     blank_document\<lparr>number_box_links :=
       numbered_links [''/parliament/senate/?page=2'', ''/parliament/senate/?page=3'']\<rparr>"

text \<open>
  A senate listing with two cards and a link to its own first page, and the site that
  serves it together with the profile of the first member only.
\<close>

definition senate_url :: string where
  "senate_url = ''https://mzalendo.com/parliament/senate/''"

definition member_card :: "string \<Rightarrow> string \<Rightarrow> mp_card" where
  "member_card member_name href =
     \<lparr> shujaa_details_a = Some \<lparr> a_text = member_name, a_href = Some href \<rparr>,
       shujaa_details_p = Some ''Senator'',
       mp_pic_img = None \<rparr>"

definition two_members :: document where
  "two_members =
     blank_document\<lparr>mp_cards :=
       [member_card ''Amina Said'' ''/person/amina-said/'',
        member_card ''Baraka Otieno'' ''/person/baraka-otieno/'']\<rparr>"

definition amina_profile :: document where
  "amina_profile = blank_document\<lparr>person_party_membership := Some ''Member of Jubilee Party''\<rparr>"

definition senate_site :: scraper where
  "senate_site =
     site [(senate_url, two_members),
           (''https://mzalendo.com/person/amina-said/'', amina_profile)]"

definition senate_site_page1 :: scraper where
  "senate_site_page1 =
     site [(senate_url,
            two_members\<lparr>number_box_links :=
              numbered_links [''/parliament/senate/?page=1'', ''/parliament/senate/?page=2'']\<rparr>),
           (''https://mzalendo.com/person/amina-said/'', amina_profile)]"

text \<open>The candidate of a card of \<^const>\<open>two_members\<close>, as the list extractor returns it.\<close>

definition senator :: "string \<Rightarrow> string \<Rightarrow> politician" where
  "senator member_name url =
     \<lparr> name = member_name, position = ''Senator'', constituency = None, county = None,
       profile_url = url, image_url = None, category = ''senate'',
       politician_id = None, party = None, election = None, contact = None,
       education = None, positions = None, promises = None, attendance = None,
       committees = None, approvalRating = None, keyAchievements = None,
       subcategory = None \<rparr>"

definition amina :: politician where
  "amina = senator ''Amina Said'' ''https://mzalendo.com/person/amina-said/''"

definition baraka :: politician where
  "baraka = senator ''Baraka Otieno'' ''https://mzalendo.com/person/baraka-otieno/''"

definition amina_detailed :: politician where
  "amina_detailed = amina\<lparr>politician_id := Some ''amina-said'', party := Some ''Jubilee Party''\<rparr>"

text \<open>Profile pages: statements with dates, an attendance table, an experience block.\<close>

definition dated_statement :: "string \<Rightarrow> string \<Rightarrow> statement" where
  "dated_statement d t =
     \<lparr> statement_date = Some d, statement_date_fallback = None,
       statement_text = Some t, statement_text_fallback = None \<rparr>"

definition statements_page :: "statement list \<Rightarrow> document" where
  "statements_page sts = blank_document\<lparr>statements_by_id := sts, statements_by_class := sts\<rparr>"

definition promises_page :: document where
  "promises_page =
     statements_page [dated_statement ''2021-05-10'' ''Build a school'',
                      dated_statement ''10 May 2021'' ''Repair the road'']"

definition timed_promise_page :: document where
  "timed_promise_page = statements_page [dated_statement ''2021-05-10 09:00'' ''Build a school'']"

definition school_promise :: "string \<Rightarrow> string option \<Rightarrow> promise" where
  "school_promise made due =
     \<lparr> promise_id = ''pr1'', description = ''Build a school'', promise_category = ''Education'',
       madeDate = Some made, dueDate = due, status = ''in-progress'' \<rparr>"

definition road_promise :: promise where
  "road_promise =
     \<lparr> promise_id = ''pr2'', description = ''Repair the road'', promise_category = ''Infrastructure'',
       madeDate = Some ''10 May 2021'', dueDate = None, status = ''in-progress'' \<rparr>"

definition table_row :: "string \<Rightarrow> string \<Rightarrow> string \<Rightarrow> attendance_entry" where
  "table_row c1 c2 c3 =
     \<lparr> has_th = False, period_elem = None, td1 = Some c1, present_elem = None, td2 = Some c2,
       absent_elem = None, td3 = Some c3 \<rparr>"

definition header_row :: attendance_entry where
  "header_row =
     \<lparr> has_th = True, period_elem = None, td1 = None, present_elem = None, td2 = None,
       absent_elem = None, td3 = None \<rparr>"

definition attendance_page :: "attendance_entry list \<Rightarrow> document" where
  "attendance_page entries =
     blank_document\<lparr>attendance_by_id :=
       Some \<lparr> attendance_records = [], table_rows = header_row # entries \<rparr>\<rparr>"

definition two_periods_page :: document where
  "two_periods_page = attendance_page [table_row ''2021'' ''8'' ''2'', table_row ''2022'' ''4'' ''1'']"

definition two_periods :: "attendance_record list" where
  "two_periods =
     [\<lparr> period = ''2021'', present = Some 8, absent = Some 2, total = Some 10 \<rparr>,
      \<lparr> period = ''2022'', present = Some 4, absent = Some 1, total = Some 5 \<rparr>]"

text \<open>A table whose first count has 310 digits and no count of absences beside it.\<close>

definition huge_count_page :: document where
  "huge_count_page =
     attendance_page [table_row ''2021'' (CHR ''1'' # replicate 309 CHR ''0'') ''n/a'',
                      table_row ''2022'' ''1'' ''0'']"

definition huge_count :: "attendance_record list" where
  "huge_count =
     [\<lparr> period = ''2021'', present = Some (10 ^ 309), absent = None, total = None \<rparr>,
      \<lparr> period = ''2022'', present = Some 1, absent = Some 0, total = Some 1 \<rparr>]"

text \<open>
  A profile with its experience block found by the class selector only, and a list of
  committees.
\<close>

definition class_experience_page :: document where
  "class_experience_page =
     blank_document
       \<lparr> person_party_membership := Some ''Member of Jubilee Party'',
         person_detail_experience :=
           [\<lparr> education_entries = [\<lparr> qualification = None, education_text = ''BSc Economics'' \<rparr>],
              education_fallback = [], position_entries = [], position_fallback = [] \<rparr>],
         committees_by_id :=
           Some \<lparr> committee_elems = [''Finance Committee''], li_elems = [] \<rparr> \<rparr>"


definition senate_site_read_only :: scraper where
  "senate_site_read_only =
     senate_site\<lparr>can_open := (\<lambda>filename. filename \<noteq> ''scraped_data/senate/baraka-otieno.json'')\<rparr>"

text \<open>A profile with a count of votes of 4301 digits, and a list of committees.\<close>

definition long_votes_page :: document where
  "long_votes_page =
     blank_document
       \<lparr> person_party_membership := Some ''Member of Jubilee Party'',
         election_results_elem :=
           Some \<lparr> election_date = Some ''2022-08-09'',
                  election_votes = Some (replicate 4301 CHR ''7'') \<rparr>,
         committees_by_id :=
           Some \<lparr> committee_elems = [''Finance Committee''], li_elems = [] \<rparr> \<rparr>"

section \<open>Verification: promise classifier\<close>

lemma keyword_scan_iff: "keyword_scan kws t \<longleftrightarrow> (\<exists>k \<in> set kws. sublist k t)"
  by (induction kws) auto

lemma category_scan_find:
  "category_scan cks t =
     (case find (\<lambda>(c, kws). \<exists>k \<in> set kws. sublist k t) cks of
        None \<Rightarrow> ''Other'' | Some (c, kws) \<Rightarrow> c)"
  by (induction cks) (auto simp: keyword_scan_iff)

lemma category_scan_no_hit:
  "\<forall>(c, kws) \<in> set cks. \<forall>k \<in> set kws. \<not> sublist k t \<Longrightarrow> category_scan cks t = ''Other''"
  by (induction cks) (auto simp: keyword_scan_iff)

text \<open>
  Claim C7. \<^verbatim>\<open>categorize_promise\<close> is a first-match scan over the categories Education,
  Healthcare, Infrastructure, Water, Agriculture, Economy, Security in this order: it
  returns the earliest category one of whose keywords is a substring of the lowered text
  (so the answer depends on the text only up to letter case), \<^verbatim>\<open>Other\<close> when no keyword
  occurs, and \<^verbatim>\<open>Education\<close> for a text with both \<^verbatim>\<open>school\<close> and \<^verbatim>\<open>hospital\<close>.
\<close>

theorem categorize_promise_first_match:
  "categorize_promise t = first_match_category t
   \<and> map fst categories_keywords =
       [''Education'', ''Healthcare'', ''Infrastructure'', ''Water'', ''Agriculture'',
        ''Economy'', ''Security'']
   \<and> (lower t = lower u \<longrightarrow> categorize_promise t = categorize_promise u)
   \<and> ((\<forall>(c, kws) \<in> set categories_keywords. \<forall>k \<in> set kws. \<not> sublist k (lower t))
        \<longrightarrow> categorize_promise t = ''Other'')
   \<and> (sublist ''school'' (lower t) \<and> sublist ''hospital'' (lower t)
        \<longrightarrow> categorize_promise t = ''Education'')"
proof -
  have a: "categorize_promise t = first_match_category t"
    by (simp add: categorize_promise_def first_match_category_def category_scan_find)
  have b: "map fst categories_keywords =
       [''Education'', ''Healthcare'', ''Infrastructure'', ''Water'', ''Agriculture'',
        ''Economy'', ''Security'']"
    by (simp add: categories_keywords_def)
  have c: "lower t = lower u \<longrightarrow> categorize_promise t = categorize_promise u"
    by (simp add: categorize_promise_def)
  have d: "(\<forall>(c, kws) \<in> set categories_keywords. \<forall>k \<in> set kws. \<not> sublist k (lower t))
        \<longrightarrow> categorize_promise t = ''Other''"
    unfolding categorize_promise_def using category_scan_no_hit by blast
  have e: "sublist ''school'' (lower t) \<and> sublist ''hospital'' (lower t)
        \<longrightarrow> categorize_promise t = ''Education''"
    by (simp add: categorize_promise_def categories_keywords_def)
  from a b c d e show ?thesis by blast
qed

theorem categorize_promise_first_match_witness:
  "sublist ''school'' (lower ''A School next to the Hospital'')
   \<and> sublist ''hospital'' (lower ''A School next to the Hospital'')
   \<and> categorize_promise ''A School next to the Hospital'' = ''Education''
   \<and> lower ''LOWER taxes'' = lower ''lower Taxes''
   \<and> categorize_promise ''LOWER taxes'' = categorize_promise ''lower Taxes''
   \<and> categorize_promise ''lower Taxes'' = ''Other''"
proof -
  have h1: "sublist ''school'' (lower ''A School next to the Hospital'')" by code_simp
  have h2: "sublist ''hospital'' (lower ''A School next to the Hospital'')" by code_simp
  have h3: "lower ''LOWER taxes'' = lower ''lower Taxes''" by code_simp
  have h4: "\<forall>(c, kws) \<in> set categories_keywords. \<forall>k \<in> set kws. \<not> sublist k (lower ''lower Taxes'')"
    by code_simp
  from categorize_promise_first_match [of "''A School next to the Hospital''" "''x''"]
       categorize_promise_first_match [of "''LOWER taxes''" "''lower Taxes''"]
       categorize_promise_first_match [of "''lower Taxes''" "''x''"]
       h1 h2 h3 h4
  show ?thesis by blast
qed

section \<open>Verification: pagination links\<close>

lemma unseen_set: "set (unseen seen xs) = set xs - seen"
  by (induction xs arbitrary: seen) auto

lemma unseen_distinct: "distinct (unseen seen xs)"
  by (induction xs arbitrary: seen) (auto simp: unseen_set)

text \<open>
  When \<^verbatim>\<open>get_pagination_links\<close> does return a list, the list has no duplicates and holds
  the synthesized first page and the collected URLs.
\<close>

lemma get_pagination_links_distinct:
  assumes "get_pagination_links self soup = Some urls"
  shows "distinct urls
         \<and> set urls = insert (urljoin self base_url ''/parliament/national_assembly/'')
                         (set (collect_page_urls self (number_box_links soup)))"
  using assms
  by (auto simp: get_pagination_links_def Let_def unseen_distinct unseen_set split: if_splits)

text \<open>
  Claim C4, at the links to the pages 2, 3, 2, 1 of the claim: one collected URL contains
  \<^verbatim>\<open>page=1\<close>, the \<^verbatim>\<open>if\<close> is not entered, and the function returns \<^verbatim>\<open>None\<close> instead of
  the list without duplicates.
\<close>

theorem pagination_links_2_3_2_1_none:
  "get_pagination_links (site [])
     (blank_document\<lparr>number_box_links :=
        numbered_links [''?page=2'', ''?page=3'', ''?page=2'', ''?page=1'']\<rparr>) = None"
  by code_simp

text \<open>
  Claim C5 fails on a listing without numbered links: the result is not empty, it is the
  synthesized first page.
\<close>

theorem no_numbered_links_counterexample:
  "get_pagination_links (site []) blank_document =
     Some [''https://mzalendo.com/parliament/national_assembly/'']"
  by code_simp

text \<open>
  Claim C5, amended. When the listing has no numbered pagination links,
  \<^verbatim>\<open>get_pagination_links\<close> returns exactly one URL, the synthesized first page.
\<close>

theorem no_numbered_links_first_page:
  "number_box_links soup = [] \<Longrightarrow>
   get_pagination_links self soup =
     Some [urljoin self base_url ''/parliament/national_assembly/'']"
  by (simp add: get_pagination_links_def)

theorem no_numbered_links_first_page_witness:
  "number_box_links blank_document = []
   \<and> get_pagination_links (site []) blank_document =
       Some [urljoin (site []) base_url ''/parliament/national_assembly/'']"
proof -
  have h: "number_box_links blank_document = []" by (simp add: blank_document_def)
  from no_numbered_links_first_page [OF h, of "site []"] h show ?thesis by simp
qed

text \<open>
  Claim C10. Whenever no collected URL contains \<^verbatim>\<open>page=1\<close>, the first URL returned is
  the one built from the path \<^verbatim>\<open>/parliament/national_assembly/\<close>, whatever listing the
  document is: the function takes neither the category nor the URL of the listing. The
  collected URLs follow, without duplicates.
\<close>

theorem synthesized_first_page_is_national_assembly:
  "\<not> list_ex (\<lambda>url. sublist ''page=1'' url) (collect_page_urls self (number_box_links soup)) \<Longrightarrow>
   get_pagination_links self soup =
     Some (urljoin self base_url ''/parliament/national_assembly/''
           # unseen {urljoin self base_url ''/parliament/national_assembly/''}
               (collect_page_urls self (number_box_links soup)))"
  by (simp add: get_pagination_links_def)

theorem synthesized_first_page_is_national_assembly_witness:
  "\<not> list_ex (\<lambda>url. sublist ''page=1'' url)
       (collect_page_urls (site []) (number_box_links senate_listing))
   \<and> get_pagination_links (site []) senate_listing =
       Some [''https://mzalendo.com/parliament/national_assembly/'',
             ''https://mzalendo.com/parliament/senate/?page=2'',
             ''https://mzalendo.com/parliament/senate/?page=3'']"
proof -
  have h: "\<not> list_ex (\<lambda>url. sublist ''page=1'' url)
       (collect_page_urls (site []) (number_box_links senate_listing))"
    by code_simp
  have e: "urljoin (site []) base_url ''/parliament/national_assembly/''
           # unseen {urljoin (site []) base_url ''/parliament/national_assembly/''}
               (collect_page_urls (site []) (number_box_links senate_listing))
           = [''https://mzalendo.com/parliament/national_assembly/'',
             ''https://mzalendo.com/parliament/senate/?page=2'',
             ''https://mzalendo.com/parliament/senate/?page=3'']"
    by code_simp
  from synthesized_first_page_is_national_assembly [OF h] h e show ?thesis by simp
qed

section \<open>Verification: orchestrator\<close>

lemma get_page_loop_None:
  "get_page_loop get a n = None \<longleftrightarrow> (\<forall>i<n. get (a + i) = None)"
proof (induction n arbitrary: a)
  case 0
  then show ?case by simp
next
  case (Suc n)
  show ?case
  proof (cases "get a")
    case None
    have "(\<forall>i<Suc n. get (a + i) = None) \<longleftrightarrow> (\<forall>i<n. get (Suc a + i) = None)"
      using None by (auto simp: less_Suc_eq_0_disj)
    with None Suc show ?thesis by simp
  next
    case (Some t)
    then have "\<not> (\<forall>i<Suc n. get (a + i) = None)" by (auto intro: exI [of _ 0])
    with Some show ?thesis by simp
  qed
qed

text \<open>\<^verbatim>\<open>get_page\<close> returns \<^verbatim>\<open>None\<close> exactly when every one of its attempts fails.\<close>

lemma get_page_None:
  "get_page self url = None \<longleftrightarrow> (\<forall>attempt<retry_count. session_get self url attempt = None)"
  by (simp add: get_page_def get_page_loop_None)

lemma detail_loop_append:
  "detail_loop self cat sub (xs @ ys) =
     (fst (detail_loop self cat sub xs) @ fst (detail_loop self cat sub ys),
      snd (detail_loop self cat sub xs) @ snd (detail_loop self cat sub ys))"
  by (induction xs) (auto split: sum.splits prod.splits)

lemma process_body_failed_fetch:
  assumes "get_page self (profile_url p) = None"
    and "election p = None" and "attendance p = None"
  shows "process_body self cat sub p =
           (if can_open self (file_name self (tag_subcategory sub p) cat)
            then Inr (tag_subcategory sub p,
                      (file_name self (tag_subcategory sub p) cat, tag_subcategory sub p))
            else Inl OSError)"
proof -
  from assms(2,3) have "politician_ints (tag_subcategory sub p) = []"
    by (simp add: politician_ints_def tag_subcategory_def split: option.splits)
  with assms(1) show ?thesis
    by (simp add: process_body_def parse_politician_detail_page_def parse_detail_logged_def
        save_politician_data_def Let_def)
qed


text \<open>
  The candidates of the list extractor carry none of the fields of the detail extractor.
\<close>

lemma parse_items_fresh:
  assumes "p \<in> set (parse_items self cat items)"
  shows "promises p = None \<and> attendance p = None \<and> approvalRating p = None
         \<and> election p = None \<and> politician_id p = None \<and> category p = cat"
  using assms
proof (induction items)
  case Nil
  then show ?case by simp
next
  case (Cons item items)
  show ?case
  proof (cases "parse_item self cat item")
    case (Inl e)
    with Cons show ?thesis by simp
  next
    case (Inr found)
    show ?thesis
    proof (cases found)
      case None
      with Inr Cons show ?thesis by simp
    next
      case (Some q)
      with Inr have "promises q = None \<and> attendance q = None \<and> approvalRating q = None
         \<and> election q = None \<and> politician_id q = None \<and> category q = cat"
        by (auto simp: parse_item_def Let_def split: option.splits)
      with Some Inr Cons show ?thesis by auto
    qed
  qed
qed

lemma list_page_fresh:
  assumes "p \<in> set (parse_politician_list_page self page cat)"
  shows "election p = None \<and> attendance p = None"
  using assms parse_items_fresh [of p self cat]
  by (auto simp: parse_politician_list_page_def split: option.splits html.splits)

lemma collect_politicians_fresh:
  assumes "collect_politicians self soup cat = Inr politicians" and "p \<in> set politicians"
  shows "election p = None \<and> attendance p = None"
  using assms list_page_fresh [of p self _ cat]
  by (auto simp: collect_politicians_def split: option.splits)

text \<open>
  Claim C1 fails on the senate site, where the profile of the second member cannot be
  fetched: the member is returned and a file is written for it, with the data of the
  listing and a file name made from the name.
\<close>

theorem failed_detail_fetch_counterexample:
  "get_page senate_site (profile_url baraka) = None
   \<and> scrape_leaders senate_site senate_url ''senate'' None =
       Inr ([amina_detailed, baraka],
            [(''scraped_data/senate/amina-said.json'', amina_detailed),
             (''scraped_data/senate/baraka-otieno.json'', baraka)])"
  by code_simp

text \<open>
  Claim C1, amended. If fetching one candidate's detail page fails after all retries,
  the candidate is not dropped for that: its record is the data of the listing (and the
  subcategory, when one is given), which is written to the file named after its name and
  returned at its place in the list. Only when that file cannot be opened is the
  candidate dropped, with no file and no record. Either way every other candidate is
  processed, persisted and returned as it is without the failed one.
\<close>

theorem failed_detail_fetch_keeps_candidate:
  assumes "get_page self url = Some (Markup soup)"
    and "collect_politicians self soup cat = Inr (before @ p # after)"
    and "\<forall>attempt<retry_count. session_get self (profile_url p) attempt = None"
  shows "scrape_leaders self url cat sub =
           Inr (if can_open self (file_name self (tag_subcategory sub p) cat)
                then (fst (detail_loop self cat sub before) @ tag_subcategory sub p
                        # fst (detail_loop self cat sub after),
                      snd (detail_loop self cat sub before)
                        @ (file_name self (tag_subcategory sub p) cat, tag_subcategory sub p)
                        # snd (detail_loop self cat sub after))
                else (fst (detail_loop self cat sub before) @ fst (detail_loop self cat sub after),
                      snd (detail_loop self cat sub before) @ snd (detail_loop self cat sub after)))"
proof -
  from assms(3) have none: "get_page self (profile_url p) = None"
    by (simp add: get_page_None)
  from collect_politicians_fresh [OF assms(2), of p]
  have fresh: "election p = None" "attendance p = None" by simp_all
  note body = process_body_failed_fetch [OF none fresh, where cat = cat and sub = sub]
  show ?thesis
  proof (cases "can_open self (file_name self (tag_subcategory sub p) cat)")
    case True
    with body have "detail_loop self cat sub (p # after) =
          (tag_subcategory sub p # fst (detail_loop self cat sub after),
           (file_name self (tag_subcategory sub p) cat, tag_subcategory sub p)
             # snd (detail_loop self cat sub after))"
      by (simp split: prod.splits)
    with True show ?thesis
      using assms(1,2) by (simp add: scrape_leaders_def detail_loop_append)
  next
    case False
    with body have "detail_loop self cat sub (p # after) = detail_loop self cat sub after"
      by simp
    with False show ?thesis
      using assms(1,2) by (simp add: scrape_leaders_def detail_loop_append)
  qed
qed

theorem failed_detail_fetch_keeps_candidate_witness:
  "get_page senate_site senate_url = Some (Markup two_members)
   \<and> collect_politicians senate_site two_members ''senate'' = Inr ([amina] @ baraka # [])
   \<and> session_get senate_site (profile_url baraka) 0 = None
   \<and> session_get senate_site (profile_url baraka) 1 = None
   \<and> session_get senate_site (profile_url baraka) 2 = None
   \<and> can_open senate_site (file_name senate_site (tag_subcategory None baraka) ''senate'')
   \<and> scrape_leaders senate_site senate_url ''senate'' None =
       Inr ([amina_detailed] @ baraka # [],
            [(''scraped_data/senate/amina-said.json'', amina_detailed)]
              @ (''scraped_data/senate/baraka-otieno.json'', baraka) # [])
   \<and> get_page senate_site_read_only senate_url = Some (Markup two_members)
   \<and> collect_politicians senate_site_read_only two_members ''senate'' = Inr ([amina] @ baraka # [])
   \<and> session_get senate_site_read_only (profile_url baraka) 0 = None
   \<and> session_get senate_site_read_only (profile_url baraka) 1 = None
   \<and> session_get senate_site_read_only (profile_url baraka) 2 = None
   \<and> \<not> can_open senate_site_read_only
         (file_name senate_site_read_only (tag_subcategory None baraka) ''senate'')
   \<and> scrape_leaders senate_site_read_only senate_url ''senate'' None =
       Inr ([amina_detailed] @ [],
            [(''scraped_data/senate/amina-said.json'', amina_detailed)] @ [])"
proof -
  have e3: "tag_subcategory None baraka = baraka"
    by (simp add: tag_subcategory_def)
  have h1: "get_page senate_site senate_url = Some (Markup two_members)"
    by code_simp
  have h2: "collect_politicians senate_site two_members ''senate'' = Inr ([amina] @ baraka # [])"
    by code_simp
  have s: "session_get senate_site (profile_url baraka) attempt = None" for attempt
    by (simp add: senate_site_def site_def baraka_def senator_def senate_url_def)
  then have h3: "\<forall>attempt<retry_count. session_get senate_site (profile_url baraka) attempt = None"
    by simp
  have e2: "file_name senate_site baraka ''senate'' = ''scraped_data/senate/baraka-otieno.json''"
    by code_simp
  have h4: "can_open senate_site (file_name senate_site (tag_subcategory None baraka) ''senate'')"
    by (simp add: senate_site_def site_def)
  have e1: "detail_loop senate_site ''senate'' None [amina] =
           ([amina_detailed], [(''scraped_data/senate/amina-said.json'', amina_detailed)])"
    by code_simp
  from failed_detail_fetch_keeps_candidate [OF h1 h2 h3, of None] h4
  have a: "scrape_leaders senate_site senate_url ''senate'' None =
       Inr ([amina_detailed] @ baraka # [],
            [(''scraped_data/senate/amina-said.json'', amina_detailed)]
              @ (''scraped_data/senate/baraka-otieno.json'', baraka) # [])"
    unfolding e3 e1 e2 by simp
  have k1: "get_page senate_site_read_only senate_url = Some (Markup two_members)"
    by code_simp
  have k2: "collect_politicians senate_site_read_only two_members ''senate''
              = Inr ([amina] @ baraka # [])"
    by code_simp
  have t: "session_get senate_site_read_only (profile_url baraka) attempt = None" for attempt
    by (simp add: senate_site_read_only_def senate_site_def site_def baraka_def senator_def
        senate_url_def)
  then have k3: "\<forall>attempt<retry_count.
      session_get senate_site_read_only (profile_url baraka) attempt = None"
    by simp
  have f2: "file_name senate_site_read_only baraka ''senate''
              = ''scraped_data/senate/baraka-otieno.json''"
    by code_simp
  then have k4: "\<not> can_open senate_site_read_only
         (file_name senate_site_read_only (tag_subcategory None baraka) ''senate'')"
    unfolding e3 by (simp add: senate_site_read_only_def)
  have f1: "detail_loop senate_site_read_only ''senate'' None [amina] =
           ([amina_detailed], [(''scraped_data/senate/amina-said.json'', amina_detailed)])"
    by code_simp
  from failed_detail_fetch_keeps_candidate [OF k1 k2 k3, of None] k4
  have b: "scrape_leaders senate_site_read_only senate_url ''senate'' None =
       Inr ([amina_detailed] @ [],
            [(''scraped_data/senate/amina-said.json'', amina_detailed)] @ [])"
    unfolding e3 f1 by simp
  from h1 h2 s h4 a k1 k2 t k4 b show ?thesis by simp
qed

text \<open>
  Claim C3, at a senate listing with a link to its own first page: the pagination links
  are \<^verbatim>\<open>None\<close>, and both modes end with the \<^verbatim>\<open>TypeError\<close> of iterating over it.
\<close>

theorem scrape_page1_raises:
  "scrape_leaders senate_site_page1 senate_url ''senate'' None = Inl TypeError
   \<and> scrape_leaders_threaded senate_site_page1 [0, 1] senate_url ''senate'' None = Inl TypeError"
  by code_simp




section \<open>Verification: detail extractor\<close>

lemma split_not_Nil: "split c s \<noteq> []"
  by (induction s) (auto split: list.splits)

lemma split_without_sep: "c \<notin> set s \<Longrightarrow> split c s = [s]"
  by (induction s) auto

lemma split_with_sep: "c \<in> set s \<Longrightarrow> 2 \<le> length (split c s)"
proof (induction s)
  case Nil
  then show ?case by simp
next
  case (Cons a s)
  show ?case
  proof (cases "a = c")
    case True
    then show ?thesis
      using split_not_Nil [of c s] by (cases "split c s") auto
  next
    case False
    with Cons show ?thesis by (cases "split c s") auto
  qed
qed

lemma split_single: "split c s = [x] \<longleftrightarrow> c \<notin> set s \<and> x = s"
proof (cases "c \<in> set s")
  case True
  from split_with_sep [OF this] show ?thesis using True by auto
next
  case False
  then show ?thesis by (auto simp: split_without_sep)
qed

lemma digit_not_hyphen: "is_digit c \<Longrightarrow> c \<noteq> CHR ''-''"
  by (auto simp: is_digit_def code_point_def)

lemma split_iso_date:
  assumes "match_iso_date d"
  shows "split CHR ''-'' d = take 4 d # take 2 (drop 5 d) # split CHR ''-'' (drop 8 d)"
proof -
  from assms obtain y1 y2 y3 y4 m1 m2 d1 d2 rest where
    d: "d = y1 # y2 # y3 # y4 # CHR ''-'' # m1 # m2 # CHR ''-'' # d1 # d2 # rest"
    and dg: "is_digit y1" "is_digit y2" "is_digit y3" "is_digit y4" "is_digit m1" "is_digit m2"
    by (cases d rule: match_iso_date.cases) auto
  from dg have "y1 \<noteq> CHR ''-''" "y2 \<noteq> CHR ''-''" "y3 \<noteq> CHR ''-''" "y4 \<noteq> CHR ''-''"
    "m1 \<noteq> CHR ''-''" "m2 \<noteq> CHR ''-''"
    by (simp_all add: digit_not_hyphen)
  then show ?thesis
    unfolding d by (simp split: list.splits add: split_not_Nil)
qed

lemma py_int_short: "length s \<le> 4300 \<Longrightarrow> py_int s = Inr (int_of_digits s)"
  by (simp add: py_int_def int_max_str_digits_def)

lemma due_date_value:
  assumes "due_date d = Inr due"
  shows "(due \<noteq> None \<longleftrightarrow> match_iso_date d)
         \<and> (match_iso_date d \<longrightarrow>
              due = Some (str_of_int (int_of_digits (take 4 d) + 3) @ drop 4 d))"
proof (cases "match_iso_date d")
  case False
  with assms show ?thesis by (simp add: due_date_def)
next
  case True
  from True have len: "10 \<le> length d"
    by (cases d rule: match_iso_date.cases) auto
  from True have h: "d ! 4 = CHR ''-''" "d ! 7 = CHR ''-''"
    by (cases d rule: match_iso_date.cases; simp)+
  note sp = split_iso_date [OF True]
  from len have year: "py_int (take 4 d) = Inr (int_of_digits (take 4 d))"
    by (simp add: py_int_short)
  from assms True sp year obtain day where day: "split CHR ''-'' (drop 8 d) = [day]"
    and due: "due = Some (str_of_int (int_of_digits (take 4 d) + 3) @ ''-'' @ take 2 (drop 5 d) @ ''-'' @ day)"
    by (auto simp: due_date_def split: list.splits)
  from day have day': "day = drop 8 d" by (simp add: split_single)
  have "drop 4 d = d ! 4 # take 2 (drop 5 d) @ d ! 7 # drop 8 d"
    using len by (cases d rule: match_iso_date.cases) auto
  with h have "drop 4 d = ''-'' @ take 2 (drop 5 d) @ ''-'' @ drop 8 d" by simp
  with due day' True show ?thesis by simp
qed

lemma due_date_exact:
  assumes "match_iso_date d" and "length d = 10"
  shows "due_date d = Inr (Some (str_of_int (int_of_digits (take 4 d) + 3) @ drop 4 d))"
proof -
  from assms obtain y1 y2 y3 y4 m1 m2 d1 d2 where
    d: "d = [y1, y2, y3, y4, CHR ''-'', m1, m2, CHR ''-'', d1, d2]"
    and dg: "is_digit d1" "is_digit d2"
    by (cases d rule: match_iso_date.cases) auto
  from dg have "CHR ''-'' \<notin> set (drop 8 d)"
    unfolding d using digit_not_hyphen by auto
  then have "split CHR ''-'' (drop 8 d) = [drop 8 d]" by (rule split_without_sep)
  moreover from assms(2) have "py_int (take 4 d) = Inr (int_of_digits (take 4 d))"
    by (simp add: py_int_short)
  ultimately
  have "due_date d = Inr (Some (str_of_int (int_of_digits (take 4 d) + 3) @ ''-'' @ take 2 (drop 5 d) @ ''-'' @ drop 8 d))"
    using split_iso_date [OF assms(1)] assms(1) by (simp add: due_date_def)
  then show ?thesis unfolding d by simp
qed

lemma run_sections_append:
  "run_sections (xs @ ys) soup p =
     (case run_sections xs soup p of
        (r, None) \<Rightarrow> run_sections ys soup r
      | (r, Some e) \<Rightarrow> (r, Some e))"
  by (induction xs arbitrary: p) (auto split: sum.splits)

lemma run_sections_raises:
  "run_sections secs soup p = (r, Some e) \<longleftrightarrow>
     (\<exists>before sec rest. secs = before @ sec # rest
        \<and> run_sections before soup p = (r, None) \<and> sec soup r = Inl e)"
proof (induction secs arbitrary: p)
  case Nil
  then show ?case by simp
next
  case (Cons s secs)
  show ?case
  proof (cases "s soup p")
    case (Inl e')
    have "(\<exists>before sec rest. s # secs = before @ sec # rest
        \<and> run_sections before soup p = (r, None) \<and> sec soup r = Inl e) \<longleftrightarrow> (r = p \<and> e' = e)"
    proof
      assume "\<exists>before sec rest. s # secs = before @ sec # rest
        \<and> run_sections before soup p = (r, None) \<and> sec soup r = Inl e"
      then obtain before sec rest where a: "s # secs = before @ sec # rest"
        and b: "run_sections before soup p = (r, None)" and c: "sec soup r = Inl e" by blast
      show "r = p \<and> e' = e"
      proof (cases before)
        case Nil
        with a b c Inl show ?thesis by simp
      next
        case (Cons x xs)
        with a have "x = s" by simp
        with Cons b Inl show ?thesis by simp
      qed
    next
      assume "r = p \<and> e' = e"
      with Inl have "s # secs = [] @ s # secs \<and> run_sections [] soup p = (r, None) \<and> s soup r = Inl e"
        by simp
      then show "\<exists>before sec rest. s # secs = before @ sec # rest
        \<and> run_sections before soup p = (r, None) \<and> sec soup r = Inl e" by blast
    qed
    with Inl show ?thesis by auto
  next
    case (Inr p')
    have "(\<exists>before sec rest. s # secs = before @ sec # rest
        \<and> run_sections before soup p = (r, None) \<and> sec soup r = Inl e) \<longleftrightarrow>
          (\<exists>before sec rest. secs = before @ sec # rest
        \<and> run_sections before soup p' = (r, None) \<and> sec soup r = Inl e)"
    proof
      assume "\<exists>before sec rest. s # secs = before @ sec # rest
        \<and> run_sections before soup p = (r, None) \<and> sec soup r = Inl e"
      then obtain before sec rest where a: "s # secs = before @ sec # rest"
        and b: "run_sections before soup p = (r, None)" and c: "sec soup r = Inl e" by blast
      show "\<exists>before sec rest. secs = before @ sec # rest
        \<and> run_sections before soup p' = (r, None) \<and> sec soup r = Inl e"
      proof (cases before)
        case Nil
        with a b c Inr show ?thesis by simp
      next
        case (Cons x xs)
        with a have "x = s" "secs = xs @ sec # rest" by simp_all
        with Cons b c Inr show ?thesis by auto
      qed
    next
      assume "\<exists>before sec rest. secs = before @ sec # rest
        \<and> run_sections before soup p' = (r, None) \<and> sec soup r = Inl e"
      then obtain before sec rest where a: "secs = before @ sec # rest"
        and b: "run_sections before soup p' = (r, None)" and c: "sec soup r = Inl e" by blast
      from a b c Inr have "s # secs = (s # before) @ sec # rest
         \<and> run_sections (s # before) soup p = (r, None) \<and> sec soup r = Inl e" by simp
      then show "\<exists>before sec rest. s # secs = before @ sec # rest
        \<and> run_sections before soup p = (r, None) \<and> sec soup r = Inl e" by blast
    qed
    with Inr Cons.IH [of p'] show ?thesis by simp
  qed
qed

text \<open>A field that no section of a list assigns is the same after the list has run.\<close>

lemma run_sections_keeps:
  assumes "\<And>sec q q'. sec \<in> set secs \<Longrightarrow> sec soup q = Inr q' \<Longrightarrow> f q' = f q"
  shows "f (fst (run_sections secs soup p)) = f p"
  using assms
proof (induction secs arbitrary: p)
  case Nil
  then show ?case by simp
next
  case (Cons s secs)
  show ?case
  proof (cases "s soup p")
    case (Inl e)
    then show ?thesis by simp
  next
    case (Inr p')
    from Cons.prems [of s p p'] Inr have "f p' = f p" by simp
    moreover have "f (fst (run_sections secs soup p')) = f p'"
    proof (rule Cons.IH)
      fix sec q q'
      assume "sec \<in> set secs" and "sec soup q = Inr q'"
      then show "f q' = f q" using Cons.prems [of sec q q'] by simp
    qed
    ultimately show ?thesis using Inr by simp
  qed
qed

text \<open>What the sections before the promises leave alone.\<close>

lemma early_sections_keep:
  assumes "sec \<in> {party_section, county_section, election_section, contact_info_section,
                  experience_section_parse}"
    and "sec soup q = Inr q'"
  shows "promises q' = promises q \<and> attendance q' = attendance q
         \<and> approvalRating q' = approvalRating q \<and> politician_id q' = politician_id q
         \<and> committees q' = committees q \<and> keyAchievements q' = keyAchievements q"
  using assms
  by (auto simp: party_section_def county_section_def election_section_def
      contact_info_section_def experience_section_parse_def Let_def
      split: option.splits if_splits sum.splits)

lemma promises_section_keeps:
  assumes "promises_section soup q = Inr q'"
  shows "attendance q' = attendance q \<and> approvalRating q' = approvalRating q
         \<and> politician_id q' = politician_id q"
  using assms by (auto simp: promises_section_def split: sum.splits if_splits)

lemma late_sections_keep:
  assumes "sec \<in> {attendance_section_parse, committees_section_parse, approval_section,
                  achievements_section}"
    and "sec soup q = Inr q'"
  shows "promises q' = promises q \<and> politician_id q' = politician_id q"
  using assms
  by (auto simp: attendance_section_parse_def committees_section_parse_def approval_section_def
      achievements_section_def Let_def split: option.splits if_splits sum.splits)
lemma make_promise_due:
  assumes "make_promise n t sd = Inr p" and "madeDate p = Some d"
  shows "(dueDate p \<noteq> None \<longleftrightarrow> match_iso_date d)
         \<and> (match_iso_date d \<longrightarrow>
              dueDate p = Some (str_of_int (int_of_digits (take 4 d) + 3) @ drop 4 d))"
proof -
  from assms obtain due where "due_date d = Inr due" and "dueDate p = due"
    by (auto simp: make_promise_def Let_def split: option.splits if_splits sum.splits)
  with due_date_value [of d due] show ?thesis by simp
qed

lemma promises_loop_due:
  assumes "promises_loop sts acc = Inr ps"
    and "\<forall>p \<in> set acc. \<forall>d. madeDate p = Some d \<longrightarrow>
           (dueDate p \<noteq> None \<longleftrightarrow> match_iso_date d)
           \<and> (match_iso_date d \<longrightarrow>
                dueDate p = Some (str_of_int (int_of_digits (take 4 d) + 3) @ drop 4 d))"
  shows "\<forall>p \<in> set ps. \<forall>d. madeDate p = Some d \<longrightarrow>
           (dueDate p \<noteq> None \<longleftrightarrow> match_iso_date d)
           \<and> (match_iso_date d \<longrightarrow>
                dueDate p = Some (str_of_int (int_of_digits (take 4 d) + 3) @ drop 4 d))"
  using assms
proof (induction sts arbitrary: acc)
  case Nil
  then show ?case by simp
next
  case (Cons st sts)
  show ?case
  proof (cases "or_elem (statement_text st) (statement_text_fallback st)")
    case None
    with Cons.prems(1) have "promises_loop sts acc = Inr ps" by simp
    from Cons.IH [OF this Cons.prems(2)] show ?thesis .
  next
    case (Some text_elem)
    show ?thesis
    proof (cases "strip text_elem = []")
      case True
      with Some Cons.prems(1) have "promises_loop sts acc = Inr ps" by simp
      from Cons.IH [OF this Cons.prems(2)] show ?thesis .
    next
      case False
      with Some Cons.prems(1) obtain p where
        mk: "make_promise (length acc + 1) (strip text_elem)
               (or_elem (statement_date st) (statement_date_fallback st)) = Inr p"
        and rest: "promises_loop sts (acc @ [p]) = Inr ps"
        by (auto split: sum.splits)
      have "\<forall>q \<in> set (acc @ [p]). \<forall>d. madeDate q = Some d \<longrightarrow>
           (dueDate q \<noteq> None \<longleftrightarrow> match_iso_date d)
           \<and> (match_iso_date d \<longrightarrow>
                dueDate q = Some (str_of_int (int_of_digits (take 4 d) + 3) @ drop 4 d))"
        using Cons.prems(2) make_promise_due [OF mk] by auto
      from Cons.IH [OF rest this] show ?thesis .
    qed
  qed
qed

lemma run_sections_middle:
  "run_sections (xs @ sec # ys) soup p =
     (case run_sections xs soup p of
        (r, Some e) \<Rightarrow> (r, Some e)
      | (r, None) \<Rightarrow>
          (case sec soup r of
             Inl e \<Rightarrow> (r, Some e)
           | Inr q \<Rightarrow> run_sections ys soup q))"
  by (simp add: run_sections_append split: prod.splits option.splits)

lemma promises_of_detail:
  assumes "promises p0 = None"
    and "promises (fst (run_sections detail_sections soup p0)) = Some ps"
  shows "promises_loop (or_list (statements_by_id soup) (statements_by_class soup)) [] = Inr ps"
proof -
  define early where "early = [party_section, county_section, election_section,
      contact_info_section, experience_section_parse]"
  define late where "late = [attendance_section_parse, committees_section_parse,
      approval_section, achievements_section]"
  have ds: "detail_sections = early @ promises_section # late"
    by (simp add: detail_sections_def early_def late_def)
  obtain p5 e5 where r5: "run_sections early soup p0 = (p5, e5)"
    by (cases "run_sections early soup p0")
  have "promises (fst (run_sections early soup p0)) = promises p0"
    by (rule run_sections_keeps) (use early_sections_keep in \<open>auto simp: early_def\<close>)
  with r5 assms(1) have p5: "promises p5 = None" by simp
  have late: "promises (fst (run_sections late soup q)) = promises q" for q
    by (rule run_sections_keeps) (use late_sections_keep in \<open>auto simp: late_def\<close>)
  show ?thesis
  proof (cases e5)
    case (Some e)
    with r5 have "fst (run_sections detail_sections soup p0) = p5"
      by (simp add: ds run_sections_middle)
    with p5 assms(2) show ?thesis by simp
  next
    case None
    show ?thesis
    proof (cases "promises_section soup p5")
      case (Inl e)
      with r5 None have "fst (run_sections detail_sections soup p0) = p5"
        by (simp add: ds run_sections_middle)
      with p5 assms(2) show ?thesis by simp
    next
      case (Inr p6)
      with r5 None have "fst (run_sections detail_sections soup p0) = fst (run_sections late soup p6)"
        by (simp add: ds run_sections_middle)
      with late [of p6] assms(2) have "promises p6 = Some ps" by simp
      with Inr p5 show ?thesis
        by (auto simp: promises_section_def split: sum.splits if_splits)
    qed
  qed
qed

text \<open>
  Claim C8, amended. For every parsed promise that carries a \<^verbatim>\<open>madeDate\<close>, a \<^verbatim>\<open>dueDate\<close>
  is emitted if and only if the \<^verbatim>\<open>madeDate\<close> begins with \<^verbatim>\<open>YYYY-MM-DD\<close> (the pattern is
  matched at the start of the text only); the \<^verbatim>\<open>dueDate\<close> is then the year plus 3, in
  decimal, followed by the text after the year as it stands. A \<^verbatim>\<open>madeDate\<close> that is
  exactly \<^verbatim>\<open>YYYY-MM-DD\<close> never raises.
\<close>

theorem due_date_of_parsed_promise:
  assumes "promises basic_info = None"
    and "promises (parse_politician_detail_page page basic_info) = Some ps"
    and "pr \<in> set ps"
    and "madeDate pr = Some d"
  shows "(dueDate pr \<noteq> None \<longleftrightarrow> match_iso_date d)
         \<and> (match_iso_date d \<longrightarrow>
              dueDate pr = Some (str_of_int (int_of_digits (take 4 d) + 3) @ drop 4 d))
         \<and> (match_iso_date d \<and> length d = 10 \<longrightarrow>
              due_date d = Inr (Some (str_of_int (int_of_digits (take 4 d) + 3) @ drop 4 d)))"
proof -
  from assms(1,2) obtain soup where page: "page = Some (Markup soup)"
    by (cases page rule: not_html.cases)
      (auto simp: parse_politician_detail_page_def parse_detail_logged_def)
  from assms(1) have "promises (basic_info\<lparr>politician_id := Some (id_of_url (profile_url basic_info))\<rparr>) = None"
    by simp
  from promises_of_detail [OF this] assms(2) page
  have "promises_loop (or_list (statements_by_id soup) (statements_by_class soup)) [] = Inr ps"
    by (simp add: parse_politician_detail_page_def parse_detail_logged_def)
  from promises_loop_due [OF this] assms(3,4)
  have "(dueDate pr \<noteq> None \<longleftrightarrow> match_iso_date d)
         \<and> (match_iso_date d \<longrightarrow>
              dueDate pr = Some (str_of_int (int_of_digits (take 4 d) + 3) @ drop 4 d))"
    by simp
  then show ?thesis using due_date_exact [of d] by blast
qed

text \<open>
  The float operations on two ratings that lie between two decimals: 3 of 100 sessions
  give 0.15 in exact arithmetic and the double just below it, which rounds to 0.1; 1 of 4
  gives the double 1.25, a tie, which rounds to the even digit, 1.2.
\<close>

lemma rating_ties:
  "approval_rating [\<lparr> period = ''2021'', present = Some 3, absent = Some 97, total = Some 100 \<rparr>]
     = Inr (to_double (1 / 10))
   \<and> approval_rating [\<lparr> period = ''2021'', present = Some 1, absent = Some 3, total = Some 4 \<rparr>]
     = Inr (to_double (12 / 10))"
  by code_simp

lemma attendance_section_result:
  assumes "attendance_section_parse soup q = Inr q'"
  shows "approvalRating q' = approvalRating q"
  using assms
  by (auto simp: attendance_section_parse_def Let_def split: option.splits if_splits sum.splits)

lemma committees_section_result:
  assumes "committees_section_parse soup q = x"
  shows "\<exists>q'. x = Inr q' \<and> approvalRating q' = approvalRating q \<and> attendance q' = attendance q"
  using assms
  by (auto simp: committees_section_parse_def Let_def split: option.splits if_splits)

lemma achievements_section_result:
  assumes "achievements_section soup q = x"
  shows "\<exists>q'. x = Inr q' \<and> approvalRating q' = approvalRating q \<and> attendance q' = attendance q"
  using assms
  by (auto simp: achievements_section_def Let_def split: option.splits if_splits)

text \<open>The sections from the committees on, run on data that has no rating yet.\<close>

lemma rating_of_last_sections:
  assumes "approvalRating q = None"
  shows "approvalRating (fst (run_sections
            [committees_section_parse, approval_section, achievements_section] soup q)) = Some x
         \<longleftrightarrow>
         (\<exists>records ratio.
            attendance (fst (run_sections
              [committees_section_parse, approval_section, achievements_section] soup q)) = Some records
            \<and> records \<noteq> [] \<and> 0 < total_sessions records
            \<and> int_truediv (total_present records) (total_sessions records) = Inr ratio
            \<and> x = round1 (float_mul ratio 5))"
proof -
  obtain q1 where c: "committees_section_parse soup q = Inr q1"
    and c1: "approvalRating q1 = approvalRating q" "attendance q1 = attendance q"
    using committees_section_result [of soup q] by blast
  show ?thesis
  proof (cases "approval_section soup q1")
    case (Inl e)
    with c have r: "fst (run_sections
            [committees_section_parse, approval_section, achievements_section] soup q) = q1"
      by simp
    from Inl c1 assms show ?thesis
      unfolding r
      by (auto simp: approval_section_def approval_rating_def split: option.splits if_splits sum.splits)
  next
    case (Inr q2)
    obtain q3 where a: "achievements_section soup q2 = Inr q3"
      and a1: "approvalRating q3 = approvalRating q2" "attendance q3 = attendance q2"
      using achievements_section_result [of soup q2] by blast
    from c Inr a have r: "fst (run_sections
            [committees_section_parse, approval_section, achievements_section] soup q) = q3"
      by simp
    from Inr c1 assms a1 show ?thesis
      unfolding r
      by (auto simp: approval_section_def approval_rating_def split: option.splits if_splits sum.splits)
  qed
qed
lemma rating_of_detail:
  assumes "attendance p0 = None" and "approvalRating p0 = None"
  shows "approvalRating (fst (run_sections detail_sections soup p0)) = Some x
         \<longleftrightarrow>
         (\<exists>records ratio.
            attendance (fst (run_sections detail_sections soup p0)) = Some records
            \<and> records \<noteq> [] \<and> 0 < total_sessions records
            \<and> int_truediv (total_present records) (total_sessions records) = Inr ratio
            \<and> x = round1 (float_mul ratio 5))"
proof -
  define first6 where "first6 = [party_section, county_section, election_section,
      contact_info_section, experience_section_parse, promises_section]"
  define last3 where "last3 = [committees_section_parse, approval_section, achievements_section]"
  have ds: "detail_sections = first6 @ attendance_section_parse # last3"
    by (simp add: detail_sections_def first6_def last3_def)
  obtain p6 e6 where r6: "run_sections first6 soup p0 = (p6, e6)"
    by (cases "run_sections first6 soup p0")
  have "attendance (fst (run_sections first6 soup p0)) = attendance p0"
    by (rule run_sections_keeps)
      (use early_sections_keep promises_section_keeps in \<open>auto simp: first6_def\<close>)
  with r6 assms(1) have att6: "attendance p6 = None" by simp
  have "approvalRating (fst (run_sections first6 soup p0)) = approvalRating p0"
    by (rule run_sections_keeps)
      (use early_sections_keep promises_section_keeps in \<open>auto simp: first6_def\<close>)
  with r6 assms(2) have app6: "approvalRating p6 = None" by simp
  show ?thesis
  proof (cases e6)
    case (Some e)
    with r6 have "fst (run_sections detail_sections soup p0) = p6"
      by (simp add: ds run_sections_middle)
    with att6 app6 show ?thesis by simp
  next
    case None
    show ?thesis
    proof (cases "attendance_section_parse soup p6")
      case (Inl e)
      with r6 None have "fst (run_sections detail_sections soup p0) = p6"
        by (simp add: ds run_sections_middle)
      with att6 app6 show ?thesis by simp
    next
      case (Inr p7)
      from attendance_section_result [OF Inr] app6 have "approvalRating p7 = None" by simp
      moreover from r6 None Inr
      have "fst (run_sections detail_sections soup p0) = fst (run_sections last3 soup p7)"
        by (simp add: ds run_sections_middle)
      ultimately show ?thesis
        using rating_of_last_sections [of p7 soup x] by (simp add: last3_def)
    qed
  qed
qed

text \<open>
  Claim C9, amended. A record made from a candidate without attendance and rating has
  the \<^verbatim>\<open>approvalRating\<close> \<open>x\<close> if and only if its attendance list is there and not
  empty, the sum of the totals is above 0, the division of the sum of the counts of
  presence by the sum of the totals does not raise \<^verbatim>\<open>OverflowError\<close>, and \<open>x\<close> is the
  quotient times 5 rounded to one decimal; missing counts are 0 in both sums.
\<close>

theorem approval_rating_presence:
  assumes "attendance basic_info = None" and "approvalRating basic_info = None"
  shows "approvalRating (parse_politician_detail_page page basic_info) = Some x
         \<longleftrightarrow>
         (\<exists>records ratio.
            attendance (parse_politician_detail_page page basic_info) = Some records
            \<and> records \<noteq> [] \<and> 0 < total_sessions records
            \<and> int_truediv (total_present records) (total_sessions records) = Inr ratio
            \<and> x = round1 (float_mul ratio 5))"
proof (cases page rule: not_html.cases)
  case 1
  with assms show ?thesis
    by (simp add: parse_politician_detail_page_def parse_detail_logged_def)
next
  case 2
  with assms show ?thesis
    by (simp add: parse_politician_detail_page_def parse_detail_logged_def)
next
  case (3 soup)
  let ?p0 = "basic_info\<lparr>politician_id := Some (id_of_url (profile_url basic_info))\<rparr>"
  from assms have "attendance ?p0 = None" "approvalRating ?p0 = None" by simp_all
  from rating_of_detail [OF this, of soup x] 3 show ?thesis
    by (simp add: parse_politician_detail_page_def parse_detail_logged_def)
qed

theorem approval_rating_presence_witness:
  "attendance amina = None \<and> approvalRating amina = None
   \<and> attendance (parse_politician_detail_page (Some (Markup two_periods_page)) amina) = Some two_periods
   \<and> two_periods \<noteq> [] \<and> total_present two_periods = 12 \<and> total_sessions two_periods = 15
   \<and> int_truediv 12 15 = Inr (Finite (3602879701896397 / 4503599627370496))
   \<and> round1 (float_mul (Finite (3602879701896397 / 4503599627370496)) 5) = Finite 4
   \<and> approvalRating (parse_politician_detail_page (Some (Markup two_periods_page)) amina)
       = Some (Finite 4)"
proof -
  have h1: "attendance amina = None" and h2: "approvalRating amina = None"
    by (simp_all add: amina_def senator_def)
  have a: "attendance (parse_politician_detail_page (Some (Markup two_periods_page)) amina)
             = Some two_periods"
    by code_simp
  have b: "two_periods \<noteq> []" by (simp add: two_periods_def)
  have c: "total_present two_periods = 12" "total_sessions two_periods = 15"
    by (simp_all add: two_periods_def total_present_def total_sessions_def)
  have d: "int_truediv 12 15 = Inr (Finite (3602879701896397 / 4503599627370496))"
    by code_simp
  have e: "round1 (float_mul (Finite (3602879701896397 / 4503599627370496)) 5) = Finite 4"
    by code_simp
  from a b c d e have "\<exists>records ratio.
            attendance (parse_politician_detail_page (Some (Markup two_periods_page)) amina)
              = Some records
            \<and> records \<noteq> [] \<and> 0 < total_sessions records
            \<and> int_truediv (total_present records) (total_sessions records) = Inr ratio
            \<and> Finite 4 = round1 (float_mul ratio 5)"
    by simp
  with approval_rating_presence [OF h1 h2, of "Some (Markup two_periods_page)" "Finite 4"]
  have "approvalRating (parse_politician_detail_page (Some (Markup two_periods_page)) amina)
       = Some (Finite 4)"
    by blast
  with h1 h2 a b c d e show ?thesis by simp
qed
lemma detail_keeps_id:
  assumes "sec \<in> set detail_sections" and "sec soup q = Inr q'"
  shows "politician_id q' = politician_id q"
proof -
  from assms(1) consider
    "sec \<in> {party_section, county_section, election_section, contact_info_section,
            experience_section_parse}"
    | "sec = promises_section"
    | "sec \<in> {attendance_section_parse, committees_section_parse, approval_section,
              achievements_section}"
    by (auto simp: detail_sections_def)
  then show ?thesis
  proof cases
    case 1
    from early_sections_keep [OF 1 assms(2)] show ?thesis by simp
  next
    case 2
    with promises_section_keeps [of soup q q'] assms(2) show ?thesis by simp
  next
    case 3
    from late_sections_keep [OF 3 assms(2)] show ?thesis by simp
  qed
qed

text \<open>
  Each of the five fields below is assigned by one section only; every other section
  leaves it as it is.
\<close>

lemma late_frames:
  "promises_section soup q = Inr q' \<Longrightarrow>
     committees q' = committees q \<and> keyAchievements q' = keyAchievements q"
  "attendance_section_parse soup q = Inr q' \<Longrightarrow>
     committees q' = committees q \<and> approvalRating q' = approvalRating q
     \<and> keyAchievements q' = keyAchievements q"
  "committees_section_parse soup q = Inr q' \<Longrightarrow>
     attendance q' = attendance q \<and> approvalRating q' = approvalRating q
     \<and> keyAchievements q' = keyAchievements q"
  "approval_section soup q = Inr q' \<Longrightarrow>
     attendance q' = attendance q \<and> committees q' = committees q
     \<and> keyAchievements q' = keyAchievements q"
  "achievements_section soup q = Inr q' \<Longrightarrow>
     attendance q' = attendance q \<and> committees q' = committees q
     \<and> approvalRating q' = approvalRating q"
  by (auto simp: promises_section_def attendance_section_parse_def committees_section_parse_def
      approval_section_def achievements_section_def Let_def
      split: option.splits if_splits sum.splits)

lemma section_cases:
  assumes "sec \<in> set detail_sections"
  obtains "sec \<in> {party_section, county_section, election_section, contact_info_section,
            experience_section_parse}"
    | "sec = promises_section" | "sec = attendance_section_parse"
    | "sec = committees_section_parse" | "sec = approval_section"
    | "sec = achievements_section"
  using assms by (auto simp: detail_sections_def)

lemma others_keep_promises:
  assumes "sec \<in> set detail_sections" and "sec \<noteq> promises_section" and "sec soup q = Inr q'"
  shows "promises q' = promises q"
  using assms(1)
proof (cases rule: section_cases)
  case 1
  from early_sections_keep [OF 1 assms(3)] show ?thesis by simp
next
  case 2
  with assms(2) show ?thesis by simp
qed (use assms(3) late_sections_keep [of sec soup q q'] in auto)

lemma others_keep_attendance:
  assumes "sec \<in> set detail_sections" and "sec \<noteq> attendance_section_parse"
    and "sec soup q = Inr q'"
  shows "attendance q' = attendance q"
  using assms(1)
proof (cases rule: section_cases)
  case 1
  from early_sections_keep [OF 1 assms(3)] show ?thesis by simp
next
  case 2
  with promises_section_keeps [of soup q q'] assms(3) show ?thesis by simp
next
  case 3
  with assms(2) show ?thesis by simp
qed (use assms(3) late_frames [of soup q q'] in auto)

lemma others_keep_committees:
  assumes "sec \<in> set detail_sections" and "sec \<noteq> committees_section_parse"
    and "sec soup q = Inr q'"
  shows "committees q' = committees q"
  using assms(1)
proof (cases rule: section_cases)
  case 1
  from early_sections_keep [OF 1 assms(3)] show ?thesis by simp
next
  case 4
  with assms(2) show ?thesis by simp
qed (use assms(3) late_frames [of soup q q'] in auto)

lemma others_keep_rating:
  assumes "sec \<in> set detail_sections" and "sec \<noteq> approval_section"
    and "sec soup q = Inr q'"
  shows "approvalRating q' = approvalRating q"
  using assms(1)
proof (cases rule: section_cases)
  case 1
  from early_sections_keep [OF 1 assms(3)] show ?thesis by simp
next
  case 2
  with promises_section_keeps [of soup q q'] assms(3) show ?thesis by simp
next
  case 5
  with assms(2) show ?thesis by simp
qed (use assms(3) late_frames [of soup q q'] in auto)

lemma others_keep_achievements:
  assumes "sec \<in> set detail_sections" and "sec \<noteq> achievements_section"
    and "sec soup q = Inr q'"
  shows "keyAchievements q' = keyAchievements q"
  using assms(1)
proof (cases rule: section_cases)
  case 1
  from early_sections_keep [OF 1 assms(3)] show ?thesis by simp
next
  case 6
  with assms(2) show ?thesis by simp
qed (use assms(3) late_frames [of soup q q'] in auto)

text \<open>
  Claim C2, amended. All sub-sections are parsed in one \<^verbatim>\<open>try\<close> block, in the order
  party, county, election, contact, experience, promises, attendance, committees, rating,
  achievements. When the sub-sections \<open>before\<close> have run and the next one raises, the
  exception is logged and the extraction ends: the record returned is the candidate data
  with the id and with what the sub-sections before extracted, and the raising
  sub-section and all later ones add nothing, so a field whose sub-section has not run
  is as in the candidate data.
\<close>

theorem exception_ends_extraction:
  assumes "detail_sections = before @ sec # rest"
    and "run_sections before soup
           (basic_info\<lparr>politician_id := Some (id_of_url (profile_url basic_info))\<rparr>) = (r, None)"
    and "sec soup r = Inl e"
  shows "parse_detail_logged (Some (Markup soup)) basic_info = (r, Some e)
         \<and> parse_politician_detail_page (Some (Markup soup)) basic_info = r
         \<and> politician_id r = Some (id_of_url (profile_url basic_info))
         \<and> (promises_section \<notin> set before \<longrightarrow> promises r = promises basic_info)
         \<and> (attendance_section_parse \<notin> set before \<longrightarrow> attendance r = attendance basic_info)
         \<and> (committees_section_parse \<notin> set before \<longrightarrow> committees r = committees basic_info)
         \<and> (approval_section \<notin> set before \<longrightarrow> approvalRating r = approvalRating basic_info)
         \<and> (achievements_section \<notin> set before
              \<longrightarrow> keyAchievements r = keyAchievements basic_info)"
proof -
  let ?p0 = "basic_info\<lparr>politician_id := Some (id_of_url (profile_url basic_info))\<rparr>"
  have sub: "sec' \<in> set detail_sections" if "sec' \<in> set before" for sec'
    unfolding assms(1) using that by simp
  from assms(2,3) have "run_sections (before @ sec # rest) soup ?p0 = (r, Some e)"
    by (simp add: run_sections_middle)
  with assms(1) have a: "parse_detail_logged (Some (Markup soup)) basic_info = (r, Some e)"
    by (simp add: parse_detail_logged_def)
  then have b: "parse_politician_detail_page (Some (Markup soup)) basic_info = r"
    by (simp add: parse_politician_detail_page_def)
  have "politician_id (fst (run_sections before soup ?p0)) = politician_id ?p0"
    by (rule run_sections_keeps) (use sub detail_keeps_id in blast)
  with assms(2) have c: "politician_id r = Some (id_of_url (profile_url basic_info))"
    by simp
  have d1: "promises r = promises basic_info" if "promises_section \<notin> set before"
  proof -
    have "promises (fst (run_sections before soup ?p0)) = promises ?p0"
      by (rule run_sections_keeps) (use sub that others_keep_promises in blast)
    with assms(2) show ?thesis by simp
  qed
  have d2: "attendance r = attendance basic_info" if "attendance_section_parse \<notin> set before"
  proof -
    have "attendance (fst (run_sections before soup ?p0)) = attendance ?p0"
      by (rule run_sections_keeps) (use sub that others_keep_attendance in blast)
    with assms(2) show ?thesis by simp
  qed
  have d3: "committees r = committees basic_info" if "committees_section_parse \<notin> set before"
  proof -
    have "committees (fst (run_sections before soup ?p0)) = committees ?p0"
      by (rule run_sections_keeps) (use sub that others_keep_committees in blast)
    with assms(2) show ?thesis by simp
  qed
  have d4: "approvalRating r = approvalRating basic_info" if "approval_section \<notin> set before"
  proof -
    have "approvalRating (fst (run_sections before soup ?p0)) = approvalRating ?p0"
      by (rule run_sections_keeps) (use sub that others_keep_rating in blast)
    with assms(2) show ?thesis by simp
  qed
  have d5: "keyAchievements r = keyAchievements basic_info"
    if "achievements_section \<notin> set before"
  proof -
    have "keyAchievements (fst (run_sections before soup ?p0)) = keyAchievements ?p0"
      by (rule run_sections_keeps) (use sub that others_keep_achievements in blast)
    with assms(2) show ?thesis by simp
  qed
  from a b c d1 d2 d3 d4 d5 show ?thesis by blast
qed

text \<open>A run of digits longer than the limit of \<^verbatim>\<open>int\<close> makes a count raise.\<close>

lemma strip_with_no_match:
  assumes "s \<noteq> []" and "\<not> p (hd s)" and "\<not> p (last s)"
  shows "strip_with p s = s"
proof -
  from assms have a: "dropWhile p s = s" by (cases s) auto
  from assms have "rev s \<noteq> []" "\<not> p (hd (rev s))" by (simp_all add: hd_rev)
  then have "dropWhile p (rev s) = rev s" by (cases "rev s") auto
  with a show ?thesis by (simp add: strip_with_def)
qed

lemma count_of_sevens:
  "count_of (Some (replicate 4301 CHR ''7'')) = Inl ValueError"
proof -
  let ?s = "replicate 4301 CHR ''7''"
  have d: "is_digit CHR ''7''" "\<not> is_space CHR ''7''"
    by (simp_all add: is_digit_def is_space_def code_point_def)
  have "strip ?s = ?s"
    unfolding strip_def by (rule strip_with_no_match) (use d in \<open>simp_all add: last_replicate\<close>)
  moreover have "dropWhile (\<lambda>c. \<not> is_digit c) ?s = ?s"
    using d by (simp add: dropWhile_eq_self_iff)
  moreover have "takeWhile is_digit ?s = ?s"
    using d by (simp add: takeWhile_eq_all_conv)
  moreover have "?s \<noteq> []" by simp
  ultimately have "search_digits (strip ?s) = Some ?s"
    by (simp add: search_digits_def Let_def)
  moreover have "py_int ?s = Inl ValueError"
    by (simp add: py_int_def int_max_str_digits_def)
  ultimately show ?thesis by (simp add: count_of_def)
qed

lemma long_votes_raise: "election_section long_votes_page p = Inl ValueError"
  by (simp add: election_section_def long_votes_page_def blank_document_def count_of_sevens)

theorem exception_ends_extraction_witness:
  "detail_sections =
     [party_section, county_section] @ election_section
       # [contact_info_section, experience_section_parse, promises_section,
          attendance_section_parse, committees_section_parse, approval_section,
          achievements_section]
   \<and> run_sections [party_section, county_section] long_votes_page
         (amina\<lparr>politician_id := Some (id_of_url (profile_url amina))\<rparr>)
       = (amina\<lparr>politician_id := Some ''amina-said'', party := Some ''Jubilee Party''\<rparr>, None)
   \<and> election_section long_votes_page
         (amina\<lparr>politician_id := Some ''amina-said'', party := Some ''Jubilee Party''\<rparr>)
       = Inl ValueError
   \<and> committees_section_parse \<notin> set [party_section, county_section]
   \<and> parse_detail_logged (Some (Markup long_votes_page)) amina
       = (amina\<lparr>politician_id := Some ''amina-said'', party := Some ''Jubilee Party''\<rparr>,
          Some ValueError)
   \<and> parse_politician_detail_page (Some (Markup long_votes_page)) amina
       = amina\<lparr>politician_id := Some ''amina-said'', party := Some ''Jubilee Party''\<rparr>
   \<and> committees (amina\<lparr>politician_id := Some ''amina-said'', party := Some ''Jubilee Party''\<rparr>)
       = committees amina
   \<and> committees_section_parse class_experience_page amina
       = Inr (amina\<lparr>committees := Some [''Finance Committee'']\<rparr>)"
proof -
  let ?r = "amina\<lparr>politician_id := Some ''amina-said'', party := Some ''Jubilee Party''\<rparr>"
  have h1: "detail_sections =
     [party_section, county_section] @ election_section
       # [contact_info_section, experience_section_parse, promises_section,
          attendance_section_parse, committees_section_parse, approval_section,
          achievements_section]"
    by (simp add: detail_sections_def)
  have i: "id_of_url (profile_url amina) = ''amina-said''"
    by code_simp
  have p: "party_section long_votes_page (amina\<lparr>politician_id := Some ''amina-said''\<rparr>) = Inr ?r"
    by (simp add: party_section_def long_votes_page_def blank_document_def)
      code_simp
  have c: "county_section long_votes_page ?r = Inr ?r"
    by (simp add: county_section_def long_votes_page_def blank_document_def)
  from p c have h2: "run_sections [party_section, county_section] long_votes_page
         (amina\<lparr>politician_id := Some (id_of_url (profile_url amina))\<rparr>) = (?r, None)"
    by (simp add: i)
  have h3: "election_section long_votes_page ?r = Inl ValueError"
    by (rule long_votes_raise)
  have v1: "committees_section_parse class_experience_page amina
       = Inr (amina\<lparr>committees := Some [''Finance Committee'']\<rparr>)"
    by code_simp
  have v2: "party_section class_experience_page amina = Inr (amina\<lparr>party := Some ''Jubilee Party''\<rparr>)"
    by code_simp
  have v3: "county_section class_experience_page amina = Inr amina"
    by code_simp
  have n: "amina\<lparr>committees := Some [''Finance Committee'']\<rparr> \<noteq> amina\<lparr>party := Some ''Jubilee Party''\<rparr>"
    "amina\<lparr>committees := Some [''Finance Committee'']\<rparr> \<noteq> amina"
    by (simp_all add: amina_def senator_def)
  from v1 v2 v3 n have "committees_section_parse \<noteq> party_section"
    "committees_section_parse \<noteq> county_section"
    by auto
  then have h4: "committees_section_parse \<notin> set [party_section, county_section]"
    by simp
  from exception_ends_extraction [OF h1 h2 h3] h4 h1 h2 h3 v1 show ?thesis
    by simp
qed

text \<open>
  Claim C2 fails on a profile whose experience block is found by the class selector only:
  the experience section raises, and the committees, which their section extracts when
  run alone, are missing from the record; the record is not the bare candidate data
  either, it has the id and the party.
\<close>

theorem exception_skips_later_sections_counterexample:
  "experience_section_parse class_experience_page amina = Inl AttributeError
   \<and> committees_section_parse class_experience_page amina =
       Inr (amina\<lparr>committees := Some [''Finance Committee'']\<rparr>)
   \<and> parse_politician_detail_page (Some (Markup class_experience_page)) amina =
       amina\<lparr>politician_id := Some ''amina-said'', party := Some ''Jubilee Party''\<rparr>
   \<and> committees (parse_politician_detail_page (Some (Markup class_experience_page)) amina) = None"
  by code_simp

text \<open>
  Claim C8 fails on a statement dated \<^verbatim>\<open>2021-05-10 09:00\<close>: the \<^verbatim>\<open>madeDate\<close> is not
  exactly \<^verbatim>\<open>YYYY-MM-DD\<close>, and a \<^verbatim>\<open>dueDate\<close> is emitted.
\<close>

theorem due_date_prefix_counterexample:
  "promises (parse_politician_detail_page (Some (Markup timed_promise_page)) amina) =
     Some [school_promise ''2021-05-10 09:00'' (Some ''2024-05-10 09:00'')]
   \<and> madeDate (school_promise ''2021-05-10 09:00'' (Some ''2024-05-10 09:00''))
       = Some ''2021-05-10 09:00''
   \<and> length ''2021-05-10 09:00'' = 16
   \<and> dueDate (school_promise ''2021-05-10 09:00'' (Some ''2024-05-10 09:00''))
       = Some ''2024-05-10 09:00''"
  by code_simp

theorem due_date_of_parsed_promise_witness:
  "promises amina = None
   \<and> promises (parse_politician_detail_page (Some (Markup promises_page)) amina) =
       Some [school_promise ''2021-05-10'' (Some ''2024-05-10''), road_promise]
   \<and> madeDate (school_promise ''2021-05-10'' (Some ''2024-05-10'')) = Some ''2021-05-10''
   \<and> match_iso_date ''2021-05-10'' \<and> length ''2021-05-10'' = 10
   \<and> dueDate (school_promise ''2021-05-10'' (Some ''2024-05-10'')) = Some ''2024-05-10''
   \<and> due_date ''2021-05-10'' = Inr (Some ''2024-05-10'')
   \<and> madeDate road_promise = Some ''10 May 2021''
   \<and> \<not> match_iso_date ''10 May 2021''
   \<and> dueDate road_promise = None"
proof -
  let ?school = "school_promise ''2021-05-10'' (Some ''2024-05-10'')"
  have h1: "promises amina = None" by (simp add: amina_def senator_def)
  have h2: "promises (parse_politician_detail_page (Some (Markup promises_page)) amina) =
       Some [?school, road_promise]"
    by code_simp
  have s1: "?school \<in> set [?school, road_promise]" and r1: "road_promise \<in> set [?school, road_promise]"
    by simp_all
  have s2: "madeDate ?school = Some ''2021-05-10''" by (simp add: school_promise_def)
  have r2: "madeDate road_promise = Some ''10 May 2021''" by (simp add: road_promise_def)
  have m: "match_iso_date ''2021-05-10''" "length ''2021-05-10'' = 10"
    "\<not> match_iso_date ''10 May 2021''"
    by (simp_all add: is_digit_def code_point_def)
  have v: "str_of_int (int_of_digits (take 4 ''2021-05-10'') + 3) @ drop 4 ''2021-05-10''
           = ''2024-05-10''"
    by code_simp
  from due_date_of_parsed_promise [OF h1 h2 s1 s2] m v
  have a: "dueDate ?school = Some ''2024-05-10''" "due_date ''2021-05-10'' = Inr (Some ''2024-05-10'')"
    by simp_all
  from due_date_of_parsed_promise [OF h1 h2 r1 r2] m
  have b: "dueDate road_promise = None" by simp
  from h1 h2 s2 r2 m a b show ?thesis by simp
qed

text \<open>
  Claim C9 fails on a table with a count of 310 digits: the attendance list is there, the
  sum of the totals is 1, the division raises \<^verbatim>\<open>OverflowError\<close>, and the record has no
  rating.
\<close>

theorem huge_count_no_rating_counterexample:
  "attendance (parse_politician_detail_page (Some (Markup huge_count_page)) amina) = Some huge_count
   \<and> huge_count \<noteq> []
   \<and> 0 < total_sessions huge_count
   \<and> approvalRating (parse_politician_detail_page (Some (Markup huge_count_page)) amina) = None
   \<and> snd (parse_detail_logged (Some (Markup huge_count_page)) amina) = Some OverflowError"
proof -
  have "parse_detail_logged (Some (Markup huge_count_page)) amina =
     (amina\<lparr>politician_id := Some ''amina-said'', attendance := Some huge_count\<rparr>,
      Some OverflowError)"
    by code_simp
  moreover have "huge_count \<noteq> []" "0 < total_sessions huge_count"
    by (simp_all add: huge_count_def total_sessions_def)
  moreover have "approvalRating amina = None" by (simp add: amina_def senator_def)
  ultimately show ?thesis by (simp add: parse_politician_detail_page_def)
qed

end
